theory Spec2Isabelle
  imports Complex_Main "HOL-Library.Sublist"
begin

section \<open>JavaScript numbers\<close>

text \<open>
  A JavaScript \<^verbatim>\<open>number\<close> is modelled as a real number, the two infinities or NaN.
  Arithmetic on finite values is exact: the rounding error of IEEE doubles and the sign
  of zero are not modelled (a division by zero yields the infinity of the dividend's
  sign). In particular a double sum absorbs an addend that is small enough
  (\<^verbatim>\<open>24 + 5e-18\<close> is \<^verbatim>\<open>24\<close>), where the exact sum grows: no result below rests on
  a sum growing by a small addend. Every comparison with NaN is false, \<^verbatim>\<open>Math.min\<close> and \<^verbatim>\<open>Math.max\<close>
  propagate NaN, and \<^verbatim>\<open>Math.round\<close> rounds halves upwards, as in the language.
\<close>

datatype jsnum = NaN | NInf | Fin real | PInf

fun jneg :: "jsnum \<Rightarrow> jsnum" where
  "jneg NaN = NaN"
| "jneg NInf = PInf"
| "jneg (Fin a) = Fin (- a)"
| "jneg PInf = NInf"

fun jadd :: "jsnum \<Rightarrow> jsnum \<Rightarrow> jsnum" where
  "jadd (Fin a) (Fin b) = Fin (a + b)"
| "jadd NaN y = NaN"
| "jadd x NaN = NaN"
| "jadd PInf NInf = NaN"
| "jadd NInf PInf = NaN"
| "jadd PInf y = PInf"
| "jadd x PInf = PInf"
| "jadd NInf y = NInf"
| "jadd x NInf = NInf"

definition jsub :: "jsnum \<Rightarrow> jsnum \<Rightarrow> jsnum" where
  "jsub x y = jadd x (jneg y)"

text \<open>The infinity with the sign of a non-zero real; zero times infinity is NaN.\<close>

definition signedInf :: "real \<Rightarrow> jsnum" where
  "signedInf a = (if a = 0 then NaN else if 0 < a then PInf else NInf)"

fun jmul :: "jsnum \<Rightarrow> jsnum \<Rightarrow> jsnum" where
  "jmul (Fin a) (Fin b) = Fin (a * b)"
| "jmul NaN y = NaN"
| "jmul x NaN = NaN"
| "jmul (Fin a) PInf = signedInf a"
| "jmul (Fin a) NInf = signedInf (- a)"
| "jmul PInf (Fin b) = signedInf b"
| "jmul NInf (Fin b) = signedInf (- b)"
| "jmul PInf PInf = PInf"
| "jmul NInf NInf = PInf"
| "jmul PInf NInf = NInf"
| "jmul NInf PInf = NInf"

fun jdiv :: "jsnum \<Rightarrow> jsnum \<Rightarrow> jsnum" where
  "jdiv (Fin a) (Fin b) = (if b = 0 then signedInf a else Fin (a / b))"
| "jdiv NaN y = NaN"
| "jdiv x NaN = NaN"
| "jdiv (Fin a) PInf = Fin 0"
| "jdiv (Fin a) NInf = Fin 0"
| "jdiv PInf (Fin b) = (if 0 \<le> b then PInf else NInf)"
| "jdiv NInf (Fin b) = (if 0 \<le> b then NInf else PInf)"
| "jdiv PInf y = NaN"
| "jdiv NInf y = NaN"

fun jlt :: "jsnum \<Rightarrow> jsnum \<Rightarrow> bool" where
  "jlt (Fin a) (Fin b) = (a < b)"
| "jlt NaN y = False"
| "jlt x NaN = False"
| "jlt PInf y = False"
| "jlt x NInf = False"
| "jlt NInf y = True"
| "jlt x PInf = True"

fun jle :: "jsnum \<Rightarrow> jsnum \<Rightarrow> bool" where
  "jle (Fin a) (Fin b) = (a \<le> b)"
| "jle NaN y = False"
| "jle x NaN = False"
| "jle NInf y = True"
| "jle x PInf = True"
| "jle PInf y = False"
| "jle x NInf = False"

definition jgt :: "jsnum \<Rightarrow> jsnum \<Rightarrow> bool" where
  "jgt x y = jlt y x"

definition jge :: "jsnum \<Rightarrow> jsnum \<Rightarrow> bool" where
  "jge x y = jle y x"

text \<open>\<^verbatim>\<open>Math.min\<close>, \<^verbatim>\<open>Math.max\<close>, \<^verbatim>\<open>Math.round\<close>, \<^verbatim>\<open>Math.ceil\<close>, \<^verbatim>\<open>Math.abs\<close>.\<close>

definition jmin :: "jsnum \<Rightarrow> jsnum \<Rightarrow> jsnum" where
  "jmin x y = (if x = NaN \<or> y = NaN then NaN else if jle x y then x else y)"

definition jmax :: "jsnum \<Rightarrow> jsnum \<Rightarrow> jsnum" where
  "jmax x y = (if x = NaN \<or> y = NaN then NaN else if jle x y then y else x)"

fun jround :: "jsnum \<Rightarrow> jsnum" where
  "jround (Fin a) = Fin (of_int \<lfloor>a + 1 / 2\<rfloor>)"
| "jround x = x"

fun jceil :: "jsnum \<Rightarrow> jsnum" where
  "jceil (Fin a) = Fin (of_int \<lceil>a\<rceil>)"
| "jceil x = x"

fun jabs :: "jsnum \<Rightarrow> jsnum" where
  "jabs (Fin a) = Fin \<bar>a\<bar>"
| "jabs NaN = NaN"
| "jabs x = PInf"

section \<open>Strings\<close>

text \<open>
  \<^verbatim>\<open>s.includes(t)\<close>: \<^verbatim>\<open>t\<close> occurs in \<^verbatim>\<open>s\<close> as a contiguous substring.
  \<^verbatim>\<open>toLowerCase\<close> is modelled on the ASCII letters.
\<close>

fun includes_str :: "string \<Rightarrow> string \<Rightarrow> bool" where
  "includes_str [] t = (t = [])"
| "includes_str (c # s) t = (prefix t (c # s) \<or> includes_str s t)"

definition lowerChar :: "char \<Rightarrow> char" where
  "lowerChar c =
     (if 65 \<le> (of_char c :: nat) \<and> (of_char c :: nat) \<le> 90
      then char_of (of_char c + (32 :: nat)) else c)"

definition toLowerCase :: "string \<Rightarrow> string" where
  "toLowerCase s = map lowerChar s"

definition isSupplement :: "string \<Rightarrow> bool" where
  "isSupplement nm = includes_str nm ''Supplement''"

section \<open>Data model\<close>

record Nutrient =
  nutrient_name :: string
  nrv :: jsnum
  unit_of :: string

record IngredientNutrient =
  nutrient_amount :: jsnum
  of_nutrient :: Nutrient

text \<open>\<^verbatim>\<open>Macros\<close> and \<^verbatim>\<open>MacroTracking\<close> have the same three fields.\<close>

record Macros =
  protein :: jsnum
  carbs :: jsnum
  fat :: jsnum

type_synonym MacroTracking = Macros

record Ingredient =
  nutrients :: "IngredientNutrient list"
  macros :: Macros
  ingredient_name :: string

datatype Sex = Male | Female

datatype ActivityLevel = Sedentary | Light | Moderate | Very

text \<open>
  A goal; \<^verbatim>\<open>lose-fat\<close> carries the target body fat percentage and the target date
  (its \<^verbatim>\<open>getTime()\<close>, in milliseconds).
\<close>

datatype Goal = BuildMuscle | LoseFat jsnum jsnum | Maintain

record TargetMacros =
  proteinPercentage :: jsnum
  carbsPercentage :: jsnum
  fatPercentage :: jsnum

record Meal =
  meal_name :: string
  kcalPercentage :: jsnum

text \<open>\<^verbatim>\<open>IngredientSelection\<close> and \<^verbatim>\<open>DietMealIngredient\<close>: an ingredient and grams.\<close>

record IngredientSelection =
  ingredient :: Ingredient
  amount :: jsnum

type_synonym DietMealIngredient = IngredientSelection

record DietMeal =
  meal :: Meal
  ingredients :: "DietMealIngredient list"

record Diet =
  meals :: "DietMeal list"

record GetDietInput =
  sex :: Sex
  age :: jsnum
  bodyWeight :: jsnum
  bodyFatPercentage :: jsnum
  activityLevel :: ActivityLevel
  goal :: Goal
  input_targetMacros :: TargetMacros
  input_ingredients :: "Ingredient list"
  input_nutrients :: "Nutrient list"
  input_meals :: "Meal list"

record NutrientTracking =
  nutrient :: Nutrient
  consumed :: jsnum
  percentage :: jsnum

datatype error = TypeError

section \<open>Energy model\<close>

definition leanBodyMass :: "jsnum \<Rightarrow> jsnum \<Rightarrow> jsnum" where
  "leanBodyMass bw bf = jmul bw (jsub (Fin 1) (jdiv bf (Fin 100)))"

definition bmr :: "jsnum \<Rightarrow> jsnum \<Rightarrow> jsnum" where
  "bmr bw bf = jadd (Fin 370) (jmul (Fin 21.6) (leanBodyMass bw bf))"

fun activityMultipliers :: "ActivityLevel \<Rightarrow> jsnum" where
  "activityMultipliers Sedentary = Fin 1.2"
| "activityMultipliers Light = Fin 1.375"
| "activityMultipliers Moderate = Fin 1.55"
| "activityMultipliers Very = Fin 1.725"

definition calculateTDEE :: "Sex \<Rightarrow> jsnum \<Rightarrow> jsnum \<Rightarrow> jsnum \<Rightarrow> ActivityLevel \<Rightarrow> jsnum" where
  "calculateTDEE sx ag bw bf al = jmul (bmr bw bf) (activityMultipliers al)"

text \<open>
  \<^verbatim>\<open>adjustCaloriesForGoal\<close> of the greedy optimizer reads the clock
  (\<^verbatim>\<open>new Date().getTime()\<close>) in its \<^verbatim>\<open>lose-fat\<close> case: the reading is the
  parameter \<open>now\<close>. The days to the target and the maximal deficit are computed and
  then not used.
\<close>

fun adjustCaloriesForGoal :: "jsnum \<Rightarrow> jsnum \<Rightarrow> Goal \<Rightarrow> jsnum \<Rightarrow> jsnum" where
  "adjustCaloriesForGoal now tdee BuildMuscle bw = jmul tdee (Fin 1.15)"
| "adjustCaloriesForGoal now tdee (LoseFat targetBf targetDate) bw =
     (let daysToTarget = jceil (jdiv (jsub targetDate now) (Fin (1000 * 60 * 60 * 24)));
          maxDeficit = jmul tdee (Fin 0.75);
          minIntake = (if jlt bw (Fin 70) then Fin 1200 else Fin 1500)
      in jmax (jmul tdee (Fin 0.8)) minIntake)"
| "adjustCaloriesForGoal now tdee Maintain bw = tdee"

definition calculateTargetMacros :: "jsnum \<Rightarrow> TargetMacros \<Rightarrow> MacroTracking" where
  "calculateTargetMacros calories tm =
     (let proteinCalories = jdiv (jmul calories (proteinPercentage tm)) (Fin 100);
          carbsCalories = jdiv (jmul calories (carbsPercentage tm)) (Fin 100);
          fatCalories = jdiv (jmul calories (fatPercentage tm)) (Fin 100)
      in \<lparr> protein = jdiv proteinCalories (Fin 4),
           carbs = jdiv carbsCalories (Fin 4),
           fat = jdiv fatCalories (Fin 9) \<rparr>)"


section \<open>LP selector\<close>

text \<open>
  The LP optimizer has its own copy of the energy model; its \<^verbatim>\<open>adjustCaloriesForGoal\<close>
  does not read the clock.
\<close>

fun adjustCaloriesForGoal_LP :: "jsnum \<Rightarrow> Goal \<Rightarrow> jsnum \<Rightarrow> jsnum" where
  "adjustCaloriesForGoal_LP tdee BuildMuscle bw = jmul tdee (Fin 1.15)"
| "adjustCaloriesForGoal_LP tdee (LoseFat targetBf targetDate) bw =
     (let minIntake = (if jlt bw (Fin 70) then Fin 1200 else Fin 1500)
      in jmax (jmul tdee (Fin 0.8)) minIntake)"
| "adjustCaloriesForGoal_LP tdee Maintain bw = tdee"

definition caloriesOfSelection :: "IngredientSelection \<Rightarrow> jsnum" where
  "caloriesOfSelection sel =
     jdiv (jmul (jadd (jadd (jmul (protein (macros (ingredient sel))) (Fin 4))
                            (jmul (carbs (macros (ingredient sel))) (Fin 4)))
                      (jmul (fat (macros (ingredient sel))) (Fin 9)))
                (amount sel)) (Fin 100)"

text \<open>The entries one meal receives: the body of \<^verbatim>\<open>selectedIngredients.forEach\<close>.\<close>

definition mealEntry_LP :: "Meal \<Rightarrow> IngredientSelection \<Rightarrow> DietMealIngredient list" where
  "mealEntry_LP m sel =
     (let mealProportion = jdiv (kcalPercentage m) (Fin 100);
          amount0 = jmul (amount sel) mealProportion;
          amount1 = (if includes_str (ingredient_name (ingredient sel)) ''Supplement''
                     then (if meal_name m = ''Breakfast'' then amount sel else Fin 0)
                     else amount0)
      in if jge amount1 (Fin 1)
         then [\<lparr> ingredient = ingredient sel, amount = jround amount1 \<rparr>]
         else [])"

definition distributeToMeals_LP ::
  "IngredientSelection list \<Rightarrow> Meal list \<Rightarrow> jsnum \<Rightarrow> Diet" where
  "distributeToMeals_LP selectedIngredients ms targetCalories =
     (let totalCalories =
            foldl (\<lambda>total sel. jadd total (caloriesOfSelection sel)) (Fin 0) selectedIngredients
      in \<lparr> meals = map (\<lambda>m. \<lparr> meal = m,
                                ingredients = concat (map (mealEntry_LP m) selectedIngredients) \<rparr>)
                       ms \<rparr>)"

text \<open>
  The LP solving routine is a library outside the repository. What it returned for
  the model is the parameter: its feasibility flag and the value of each variable
  \<^verbatim>\<open>x0\<close>, \<^verbatim>\<open>x1\<close>, ... (absent for a variable the solution does not list).
\<close>

record Solution =
  feasible :: bool
  solved :: "nat \<Rightarrow> jsnum option"

text \<open>\<^verbatim>\<open>solution[`x${index}`] || 0\<close>: an absent, zero or NaN value reads as 0.\<close>

definition orZero :: "jsnum option \<Rightarrow> jsnum" where
  "orZero v = (case v of None \<Rightarrow> Fin 0
               | Some x \<Rightarrow> if x = NaN \<or> x = Fin 0 then Fin 0 else x)"

definition convertVariable :: "Solution \<Rightarrow> nat \<times> Ingredient \<Rightarrow> IngredientSelection list" where
  "convertVariable sol p =
     (let amount0 = orZero (solved sol (fst p))
      in if jgt amount0 (Fin 1)
         then [\<lparr> ingredient = snd p, amount = jround amount0 \<rparr>]
         else [])"

definition lpSelection :: "Solution \<Rightarrow> Ingredient list \<Rightarrow> IngredientSelection list" where
  "lpSelection sol ings =
     (if feasible sol then concat (map (convertVariable sol) (enumerate 0 ings)) else [])"

definition targetCalories_LP :: "GetDietInput \<Rightarrow> jsnum" where
  "targetCalories_LP input =
     adjustCaloriesForGoal_LP
       (calculateTDEE (sex input) (age input) (bodyWeight input) (bodyFatPercentage input)
          (activityLevel input))
       (goal input) (bodyWeight input)"

text \<open>\<^verbatim>\<open>xs.filter(p)\<close> followed by a push of \<^verbatim>\<open>xs[0]\<close> when the result is not empty.\<close>

definition pushFirst :: "Ingredient list \<Rightarrow> jsnum \<Rightarrow> IngredientSelection list" where
  "pushFirst matches grams =
     (if length matches > 0 then [\<lparr> ingredient = matches ! 0, amount = grams \<rparr>] else [])"

definition isVeggie :: "Ingredient \<Rightarrow> bool" where
  "isVeggie i =
     (includes_str (toLowerCase (ingredient_name i)) ''spinach'' \<or>
      includes_str (toLowerCase (ingredient_name i)) ''broccoli'' \<or>
      includes_str (toLowerCase (ingredient_name i)) ''kale'')"

definition fallbackSelections :: "Ingredient list \<Rightarrow> IngredientSelection list" where
  "fallbackSelections ings =
     (let proteins = filter (\<lambda>i. jgt (protein (macros i)) (Fin 20) \<and>
                               \<not> includes_str (ingredient_name i) ''Supplement'') ings;
          carbos = filter (\<lambda>i. jgt (carbs (macros i)) (Fin 20) \<and>
                               \<not> includes_str (ingredient_name i) ''Supplement'') ings;
          veggies = filter isVeggie ings;
          fats = filter (\<lambda>i. jgt (fat (macros i)) (Fin 40) \<and>
                               \<not> includes_str (ingredient_name i) ''Supplement'') ings;
          multivitamin = find (\<lambda>i. includes_str (ingredient_name i) ''Multivitamin'') ings
      in pushFirst proteins (Fin 200) @ pushFirst carbos (Fin 150) @
         pushFirst veggies (Fin 200) @ pushFirst fats (Fin 30) @
         (case multivitamin of None \<Rightarrow> []
          | Some mv \<Rightarrow> [\<lparr> ingredient = mv, amount = Fin 2 \<rparr>]))"

definition createFallbackDiet :: "GetDietInput \<Rightarrow> Diet" where
  "createFallbackDiet input =
     distributeToMeals_LP (fallbackSelections (input_ingredients input)) (input_meals input)
       (targetCalories_LP input)"

text \<open>
  \<^verbatim>\<open>getDiet\<close> of the LP optimizer, after the solver has returned \<open>sol\<close>. No statement
  on this path throws, so the result is always a diet (\<open>Inr\<close>).
\<close>

definition getDiet_LP :: "Solution \<Rightarrow> GetDietInput \<Rightarrow> error + Diet" where
  "getDiet_LP sol input =
     (let targetCalories = targetCalories_LP input;
          targetMacrosInGrams = calculateTargetMacros targetCalories (input_targetMacros input);
          selectedIngredients = lpSelection sol (input_ingredients input)
      in if length selectedIngredients < 5 then Inr (createFallbackDiet input)
         else Inr (distributeToMeals_LP selectedIngredients (input_meals input) targetCalories))"

text \<open>
  The fallback diet in the words of the specification: for each of the five rules, the
  first catalog entry that matches, at the rule's grams, and nothing when no entry matches.
\<close>

definition firstMatch :: "(Ingredient \<Rightarrow> bool) \<Rightarrow> jsnum \<Rightarrow> Ingredient list \<Rightarrow> IngredientSelection list" where
  "firstMatch p grams catalog =
     (case find p catalog of None \<Rightarrow> []
      | Some i \<Rightarrow> [\<lparr> ingredient = i, amount = grams \<rparr>])"

definition fallbackDiet_spec :: "Ingredient list \<Rightarrow> IngredientSelection list" where
  "fallbackDiet_spec catalog =
     firstMatch (\<lambda>i. \<not> isSupplement (ingredient_name i) \<and> jgt (protein (macros i)) (Fin 20))
       (Fin 200) catalog @
     firstMatch (\<lambda>i. \<not> isSupplement (ingredient_name i) \<and> jgt (carbs (macros i)) (Fin 20))
       (Fin 150) catalog @
     firstMatch isVeggie (Fin 200) catalog @
     firstMatch (\<lambda>i. \<not> isSupplement (ingredient_name i) \<and> jgt (fat (macros i)) (Fin 40))
       (Fin 30) catalog @
     firstMatch (\<lambda>i. includes_str (ingredient_name i) ''Multivitamin'') (Fin 2) catalog"


section \<open>Greedy selector\<close>

definition initializeNutrientTracking :: "Nutrient list \<Rightarrow> NutrientTracking list" where
  "initializeNutrientTracking ns =
     map (\<lambda>n. \<lparr> nutrient = n, consumed = Fin 0, percentage = Fin 0 \<rparr>) ns"

definition areAllNRVsMet :: "NutrientTracking list \<Rightarrow> bool" where
  "areAllNRVsMet tracking = list_all (\<lambda>t. jge (percentage t) (Fin 100)) tracking"

definition calculateCaloriesFromMacros :: "Macros \<Rightarrow> jsnum" where
  "calculateCaloriesFromMacros m =
     jadd (jadd (jmul (protein m) (Fin 4)) (jmul (carbs m) (Fin 4))) (jmul (fat m) (Fin 9))"

definition calculateTotalCalories :: "MacroTracking \<Rightarrow> jsnum" where
  "calculateTotalCalories m =
     jadd (jadd (jmul (protein m) (Fin 4)) (jmul (carbs m) (Fin 4))) (jmul (fat m) (Fin 9))"

text \<open>\<^verbatim>\<open>nutrientTracking.find((t) => t.nutrient.name === name)\<close>\<close>

definition findTracking :: "NutrientTracking list \<Rightarrow> string \<Rightarrow> NutrientTracking option" where
  "findTracking tracking nm = find (\<lambda>t. nutrient_name (nutrient t) = nm) tracking"

definition calculateMacroScore :: "Macros \<Rightarrow> MacroTracking \<Rightarrow> MacroTracking \<Rightarrow> jsnum" where
  "calculateMacroScore ingredientMacros currentMacros targetMacros =
     (let currentTotal = jadd (jadd (protein currentMacros) (carbs currentMacros)) (fat currentMacros);
          targetTotal = jadd (jadd (protein targetMacros) (carbs targetMacros)) (fat targetMacros)
      in if currentTotal = Fin 0 then Fin 1
         else
          (let curP = jdiv (protein currentMacros) currentTotal;
               curC = jdiv (carbs currentMacros) currentTotal;
               curF = jdiv (fat currentMacros) currentTotal;
               tarP = jdiv (protein targetMacros) targetTotal;
               tarC = jdiv (carbs targetMacros) targetTotal;
               tarF = jdiv (fat targetMacros) targetTotal;
               ingredientTotal =
                 jadd (jadd (protein ingredientMacros) (carbs ingredientMacros)) (fat ingredientMacros);
               ingP = jdiv (protein ingredientMacros) ingredientTotal;
               ingC = jdiv (carbs ingredientMacros) ingredientTotal;
               ingF = jdiv (fat ingredientMacros) ingredientTotal;
               score0 = Fin 0;
               score1 = (if jlt curP tarP \<and> jgt ingP curP
                         then jadd score0 (jmul (jsub ingP curP) (Fin 2)) else score0);
               score2 = (if jlt curC tarC \<and> jgt ingC curC
                         then jadd score1 (jmul (jsub ingC curC) (Fin 2)) else score1);
               score3 = (if jlt curF tarF \<and> jgt ingF curF
                         then jadd score2 (jmul (jsub ingF curF) (Fin 2)) else score2)
           in score3))"

definition nutrientScore ::
  "NutrientTracking list \<Rightarrow> jsnum \<Rightarrow> jsnum \<Rightarrow> IngredientNutrient \<Rightarrow> jsnum" where
  "nutrientScore tracking caloriesPer100g score ingredientNutrient =
     (case findTracking tracking (nutrient_name (of_nutrient ingredientNutrient)) of
        None \<Rightarrow> score
      | Some t \<Rightarrow>
          if jlt (percentage t) (Fin 100)
          then (let deficiency = jsub (Fin 100) (percentage t);
                    nutrientDensity = jdiv (nutrient_amount ingredientNutrient) caloriesPer100g
                in jadd score (jmul (jmul nutrientDensity deficiency) (Fin 10)))
          else score)"

definition calculateIngredientScore ::
  "Ingredient \<Rightarrow> NutrientTracking list \<Rightarrow> MacroTracking \<Rightarrow> MacroTracking \<Rightarrow> jsnum \<Rightarrow> jsnum" where
  "calculateIngredientScore ing tracking currentMacros targetMacros remainingCalories =
     (let caloriesPer100g = calculateCaloriesFromMacros (macros ing)
      in if jgt caloriesPer100g remainingCalories then Fin (- 1000)
         else
          (let score = foldl (nutrientScore tracking caloriesPer100g) (Fin 0) (nutrients ing);
               macroScore = calculateMacroScore (macros ing) currentMacros targetMacros
           in jadd score (jmul macroScore (Fin 5))))"

definition betterIngredient ::
  "NutrientTracking list \<Rightarrow> MacroTracking \<Rightarrow> MacroTracking \<Rightarrow> jsnum \<Rightarrow>
   Ingredient option \<times> jsnum \<Rightarrow> Ingredient \<Rightarrow> Ingredient option \<times> jsnum" where
  "betterIngredient tracking currentMacros targetMacros remainingCalories best ing =
     (let score = calculateIngredientScore ing tracking currentMacros targetMacros remainingCalories
      in if jgt score (snd best) then (Some ing, score) else best)"

definition findBestIngredient ::
  "Ingredient list \<Rightarrow> NutrientTracking list \<Rightarrow> MacroTracking \<Rightarrow> MacroTracking \<Rightarrow> jsnum \<Rightarrow>
   (Ingredient \<times> jsnum) option" where
  "findBestIngredient ings tracking currentMacros targetMacros remainingCalories =
     (case foldl (betterIngredient tracking currentMacros targetMacros remainingCalories)
             (None, NInf) ings of
        (None, bestScore) \<Rightarrow> None
      | (Some bestIngredient, bestScore) \<Rightarrow> Some (bestIngredient, bestScore))"

text \<open>\<^verbatim>\<open>Math.min(...limits)\<close> on a list that is not empty.\<close>

fun jminList :: "jsnum list \<Rightarrow> jsnum" where
  "jminList [] = PInf"
| "jminList (x # xs) = foldl jmin x xs"

definition macroLimit :: "jsnum \<Rightarrow> jsnum \<Rightarrow> jsnum \<Rightarrow> jsnum list" where
  "macroLimit ingredientMacro current target =
     (if jgt ingredientMacro (Fin 0)
      then (let lim = jmul (jdiv (jsub target current) ingredientMacro) (Fin 100)
            in if jgt lim (Fin 0) then [lim] else [])
      else [])"

definition calculateMacroLimitedAmount :: "Macros \<Rightarrow> MacroTracking \<Rightarrow> MacroTracking \<Rightarrow> jsnum" where
  "calculateMacroLimitedAmount ingredientMacros currentMacros targetMacros =
     (let limits = macroLimit (protein ingredientMacros) (protein currentMacros) (protein targetMacros) @
                   macroLimit (carbs ingredientMacros) (carbs currentMacros) (carbs targetMacros) @
                   macroLimit (fat ingredientMacros) (fat currentMacros) (fat targetMacros)
      in if length limits > 0 then jmul (jminList limits) (Fin 1.1) else Fin 500)"

definition limitByNutrient :: "NutrientTracking list \<Rightarrow> jsnum \<Rightarrow> IngredientNutrient \<Rightarrow> jsnum" where
  "limitByNutrient tracking optimalAmount ingredientNutrient =
     (case findTracking tracking (nutrient_name (of_nutrient ingredientNutrient)) of
        None \<Rightarrow> optimalAmount
      | Some t \<Rightarrow>
          if jlt (percentage t) (Fin 100)
          then (let neededAmount = jsub (nrv (nutrient t)) (consumed t);
                    amountToMeetNeed =
                      jmul (jdiv neededAmount (nutrient_amount ingredientNutrient)) (Fin 100)
                in jmin optimalAmount (jmul amountToMeetNeed (Fin 1.2)))
          else optimalAmount)"

text \<open>The practical limits of the last lines of \<^verbatim>\<open>calculateOptimalAmount\<close>.\<close>

definition practicalLimits :: "string \<Rightarrow> jsnum \<Rightarrow> jsnum" where
  "practicalLimits nm optimalAmount =
     (let maxAmount = (if includes_str nm ''Supplement'' then Fin 10 else Fin 500);
          minAmount = (if includes_str nm ''Supplement'' then Fin 1 else Fin 5)
      in jmax minAmount (jmin maxAmount (jround optimalAmount)))"

definition calculateOptimalAmount ::
  "Ingredient \<Rightarrow> NutrientTracking list \<Rightarrow> MacroTracking \<Rightarrow> MacroTracking \<Rightarrow> jsnum \<Rightarrow> jsnum" where
  "calculateOptimalAmount ing tracking currentMacros targetMacros remainingCalories =
     (let caloriesPer100g = calculateCaloriesFromMacros (macros ing);
          optimal0 = jdiv (jmul remainingCalories (Fin 0.15)) (jdiv caloriesPer100g (Fin 100));
          optimal1 = foldl (limitByNutrient tracking) optimal0 (nutrients ing);
          macroLimitedAmount = calculateMacroLimitedAmount (macros ing) currentMacros targetMacros;
          optimal2 = jmin optimal1 macroLimitedAmount
      in practicalLimits (ingredient_name ing) optimal2)"

text \<open>
  \<^verbatim>\<open>updateTracking\<close> mutates the tracking entries and the macro totals in place; the
  model returns both. The entry updated for a nutrient is the first one with its name.
\<close>

fun bumpTracking :: "string \<Rightarrow> jsnum \<Rightarrow> NutrientTracking list \<Rightarrow> NutrientTracking list" where
  "bumpTracking nm added [] = []"
| "bumpTracking nm added (t # ts) =
     (if nutrient_name (nutrient t) = nm
      then (let consumed' = jadd (consumed t) added
            in t\<lparr> consumed := consumed',
                  percentage := jmul (jdiv consumed' (nrv (nutrient t))) (Fin 100) \<rparr> # ts)
      else t # bumpTracking nm added ts)"

definition addMacros :: "jsnum \<Rightarrow> MacroTracking \<Rightarrow> Macros \<Rightarrow> MacroTracking" where
  "addMacros factor m im =
     \<lparr> protein = jadd (protein m) (jmul (protein im) factor),
       carbs = jadd (carbs m) (jmul (carbs im) factor),
       fat = jadd (fat m) (jmul (fat im) factor) \<rparr>"

definition updateTracking ::
  "Ingredient \<Rightarrow> jsnum \<Rightarrow> NutrientTracking list \<Rightarrow> MacroTracking \<Rightarrow>
   NutrientTracking list \<times> MacroTracking" where
  "updateTracking ing amt tracking m =
     (let factor = jdiv amt (Fin 100)
      in (foldl (\<lambda>tr ingredientNutrient.
                   bumpTracking (nutrient_name (of_nutrient ingredientNutrient))
                     (jmul (nutrient_amount ingredientNutrient) factor) tr)
            tracking (nutrients ing),
          addMacros factor m (macros ing)))"

text \<open>The selection is merged by ingredient name: an entry found is increased in place.\<close>

fun addSelection :: "Ingredient \<Rightarrow> jsnum \<Rightarrow> IngredientSelection list \<Rightarrow> IngredientSelection list" where
  "addSelection ing amt [] = [\<lparr> ingredient = ing, amount = amt \<rparr>]"
| "addSelection ing amt (s # ss) =
     (if ingredient_name (ingredient s) = ingredient_name ing
      then s\<lparr> amount := jadd (amount s) amt \<rparr> # ss
      else s # addSelection ing amt ss)"

record SelectState =
  st_selected :: "IngredientSelection list"
  st_tracking :: "NutrientTracking list"
  st_macros :: MacroTracking
  st_calories :: jsnum

text \<open>
  One run of the loop body: \<open>None\<close> is the \<^verbatim>\<open>break\<close>, \<open>Some\<close> the state the next
  test of the loop condition sees (the state unchanged after \<^verbatim>\<open>continue\<close>).
\<close>

definition selectStep ::
  "Ingredient list \<Rightarrow> MacroTracking \<Rightarrow> jsnum \<Rightarrow> SelectState \<Rightarrow> SelectState option" where
  "selectStep ings targetMacros targetCalories s =
     (case findBestIngredient ings (st_tracking s) (st_macros s) targetMacros
             (jsub targetCalories (st_calories s)) of
        None \<Rightarrow> None
      | Some best \<Rightarrow>
          (let optimalAmount =
                 calculateOptimalAmount (fst best) (st_tracking s) (st_macros s) targetMacros
                   (jsub targetCalories (st_calories s))
           in if jle optimalAmount (Fin 0) then Some s
              else
               (let upd = updateTracking (fst best) optimalAmount (st_tracking s) (st_macros s)
                in Some \<lparr> st_selected = addSelection (fst best) optimalAmount (st_selected s),
                          st_tracking = fst upd,
                          st_macros = snd upd,
                          st_calories = calculateTotalCalories (snd upd) \<rparr>)))"

definition loopCondition :: "jsnum \<Rightarrow> SelectState \<Rightarrow> bool" where
  "loopCondition targetCalories s =
     (\<not> areAllNRVsMet (st_tracking s) \<and>
      jlt (st_calories s) (jmul targetCalories (Fin 0.95)))"

text \<open>The \<^verbatim>\<open>while\<close> loop; \<open>None\<close> when it runs forever.\<close>

partial_function (option) selectLoop ::
  "Ingredient list \<Rightarrow> MacroTracking \<Rightarrow> jsnum \<Rightarrow> SelectState \<Rightarrow> SelectState option" where
  "selectLoop ings targetMacros targetCalories s =
     (if loopCondition targetCalories s
      then (case selectStep ings targetMacros targetCalories s of
              None \<Rightarrow> Some s
            | Some s' \<Rightarrow> selectLoop ings targetMacros targetCalories s')
      else Some s)"

definition initialState :: "Nutrient list \<Rightarrow> SelectState" where
  "initialState ns =
     \<lparr> st_selected = [], st_tracking = initializeNutrientTracking ns,
       st_macros = \<lparr> protein = Fin 0, carbs = Fin 0, fat = Fin 0 \<rparr>,
       st_calories = Fin 0 \<rparr>"

section \<open>Macro balancer\<close>

definition scaleSelection :: "jsnum \<Rightarrow> IngredientSelection \<Rightarrow> IngredientSelection" where
  "scaleSelection scaleFactor sel =
     (if includes_str (ingredient_name (ingredient sel)) ''Supplement''
      then sel\<lparr> amount := jmin (Fin 10) (jmul (amount sel) (jmin scaleFactor (Fin 1.5))) \<rparr>
      else sel\<lparr> amount := jmin (Fin 500) (jmul (amount sel) scaleFactor) \<rparr>)"

definition increaseAmount :: "IngredientSelection \<Rightarrow> IngredientSelection" where
  "increaseAmount sel =
     (let newAmount = jmul (amount sel) (jadd (Fin 1) (Fin 0.05));
          maxAmount = (if includes_str (ingredient_name (ingredient sel)) ''Supplement''
                       then Fin 10 else Fin 500)
      in sel\<lparr> amount := jmin maxAmount newAmount \<rparr>)"

definition refineSelection :: "jsnum \<Rightarrow> jsnum \<Rightarrow> jsnum \<Rightarrow> IngredientSelection \<Rightarrow> IngredientSelection" where
  "refineSelection proteinDiff carbsDiff fatDiff sel =
     (let m = macros (ingredient sel)
      in if jgt proteinDiff (Fin 5) \<and> jgt (protein m) (carbs m) \<and> jgt (protein m) (fat m)
         then increaseAmount sel
         else if jgt carbsDiff (Fin 5) \<and> jgt (carbs m) (protein m) \<and> jgt (carbs m) (fat m)
         then increaseAmount sel
         else if jgt fatDiff (Fin 5) \<and> jgt (fat m) (protein m) \<and> jgt (fat m) (carbs m)
         then increaseAmount sel
         else sel)"

definition recalculateMacros :: "IngredientSelection list \<Rightarrow> MacroTracking" where
  "recalculateMacros sels =
     foldl (\<lambda>m sel. addMacros (jdiv (amount sel) (Fin 100)) m (macros (ingredient sel)))
       \<lparr> protein = Fin 0, carbs = Fin 0, fat = Fin 0 \<rparr> sels"

text \<open>One refinement pass: the selections, the macros, and whether the loop breaks.\<close>

definition refinePass ::
  "IngredientSelection list \<Rightarrow> MacroTracking \<Rightarrow> MacroTracking \<Rightarrow>
   IngredientSelection list \<times> MacroTracking \<times> bool" where
  "refinePass sels currentMacros targetMacros =
     (let proteinDiff = jsub (protein targetMacros) (protein currentMacros);
          carbsDiff = jsub (carbs targetMacros) (carbs currentMacros);
          fatDiff = jsub (fat targetMacros) (fat currentMacros);
          sels' = map (refineSelection proteinDiff carbsDiff fatDiff) sels
      in (sels', recalculateMacros sels',
          jlt (jabs proteinDiff) (Fin 5) \<and> jlt (jabs carbsDiff) (Fin 5) \<and>
          jlt (jabs fatDiff) (Fin 5)))"

text \<open>
  The \<^verbatim>\<open>for (let i = 0; i < 10; i++)\<close> loop from counter \<open>i\<close>. The third component
  of the result counts the passes that were run.
\<close>

function refineLoop ::
  "nat \<Rightarrow> IngredientSelection list \<Rightarrow> MacroTracking \<Rightarrow> MacroTracking \<Rightarrow>
   IngredientSelection list \<times> MacroTracking \<times> nat" where
  "refineLoop i sels currentMacros targetMacros =
     (if i < 10
      then (let r = refinePass sels currentMacros targetMacros
            in if snd (snd r) then (fst r, fst (snd r), Suc i)
               else refineLoop (Suc i) (fst r) (fst (snd r)) targetMacros)
      else (sels, currentMacros, i))"
  by pat_completeness auto
termination
  by (relation "measure (\<lambda>(i, sels, cur, tar). 10 - i)") auto

definition optimizeMacroBalance ::
  "IngredientSelection list \<Rightarrow> MacroTracking \<Rightarrow> MacroTracking \<Rightarrow> jsnum \<Rightarrow>
   IngredientSelection list \<times> MacroTracking \<times> nat" where
  "optimizeMacroBalance sels currentMacros targetMacros targetCalories =
     (let currentCalories = calculateTotalCalories currentMacros;
          calorieDiff = jsub targetCalories currentCalories
      in if jgt calorieDiff (jmul targetCalories (Fin 0.05))
         then (let scaleFactor = jdiv targetCalories currentCalories
               in (map (scaleSelection scaleFactor) sels, currentMacros, 0))
         else refineLoop 0 sels currentMacros targetMacros)"

text \<open>\<open>None\<close> when the selection loop runs forever.\<close>

definition selectOptimalIngredients ::
  "Ingredient list \<Rightarrow> Nutrient list \<Rightarrow> MacroTracking \<Rightarrow> jsnum \<Rightarrow> IngredientSelection list option" where
  "selectOptimalIngredients ings ns targetMacros targetCalories =
     (case selectLoop ings targetMacros targetCalories (initialState ns) of
        None \<Rightarrow> None
      | Some s \<Rightarrow>
          Some (fst (optimizeMacroBalance (st_selected s) (st_macros s) targetMacros targetCalories)))"


section \<open>Greedy meal distributor\<close>

text \<open>The comparator handed to \<^verbatim>\<open>Array.prototype.sort\<close>.\<close>

definition isBreakfastFood :: "string \<Rightarrow> bool" where
  "isBreakfastFood nm = (includes_str nm ''oat'' \<or> includes_str nm ''egg'' \<or> includes_str nm ''milk'')"

definition isDinnerFood :: "string \<Rightarrow> bool" where
  "isDinnerFood nm = (includes_str nm ''rice'' \<or> includes_str nm ''meat'' \<or> includes_str nm ''fish'')"

definition mealTimingCompare :: "IngredientSelection \<Rightarrow> IngredientSelection \<Rightarrow> int" where
  "mealTimingCompare a b =
     (let aName = toLowerCase (ingredient_name (ingredient a));
          bName = toLowerCase (ingredient_name (ingredient b))
      in if isBreakfastFood aName then - 1
         else if isBreakfastFood bName then 1
         else if isDinnerFood aName then 1
         else if isDinnerFood bName then - 1
         else 0)"

text \<open>
  The comparator is not a consistent order (two breakfast foods are each before the
  other), so the order \<^verbatim>\<open>sort\<close> produces is left to the engine: the sorting routine
  is a parameter of the distributor. A stable insertion sort (equal elements keep their
  order) is given for concrete runs.
\<close>

type_synonym sorter =
  "(IngredientSelection \<Rightarrow> IngredientSelection \<Rightarrow> int) \<Rightarrow> IngredientSelection list \<Rightarrow> IngredientSelection list"

fun insertBy :: "('a \<Rightarrow> 'a \<Rightarrow> int) \<Rightarrow> 'a \<Rightarrow> 'a list \<Rightarrow> 'a list" where
  "insertBy cmp x [] = [x]"
| "insertBy cmp x (y # ys) = (if cmp x y \<le> 0 then x # y # ys else y # insertBy cmp x ys)"

definition insertionSort :: "('a \<Rightarrow> 'a \<Rightarrow> int) \<Rightarrow> 'a list \<Rightarrow> 'a list" where
  "insertionSort cmp xs = foldr (insertBy cmp) xs []"

text \<open>
  The inner loop over the sorted selections for one meal, from the calories the meal
  holds so far: the entries pushed, and the selections with their amounts reduced (the
  selection objects are shared by all meals).
\<close>

fun fillMeal ::
  "jsnum \<Rightarrow> jsnum \<Rightarrow> IngredientSelection list \<Rightarrow>
   DietMealIngredient list \<times> IngredientSelection list" where
  "fillMeal mealCalories currentMealCalories [] = ([], [])"
| "fillMeal mealCalories currentMealCalories (sel # sels) =
     (if jge currentMealCalories (jmul mealCalories (Fin 0.95)) then ([], sel # sels)
      else
       (let ingredientCaloriesPer100g = calculateCaloriesFromMacros (macros (ingredient sel));
            totalIngredientCalories = jmul (jdiv (amount sel) (Fin 100)) ingredientCaloriesPer100g;
            remainingMealCalories = jsub mealCalories currentMealCalories;
            portionRatio = jmin (Fin 1) (jdiv remainingMealCalories totalIngredientCalories)
        in if jgt portionRatio (Fin 0.1)
           then
            (let mealAmount0 = jmul (amount sel) portionRatio;
                 mealAmount = (if includes_str (ingredient_name (ingredient sel)) ''Supplement''
                               then jmin mealAmount0 (Fin 5) else mealAmount0);
                 rest = fillMeal mealCalories
                          (jadd currentMealCalories
                             (jmul (jdiv mealAmount (Fin 100)) ingredientCaloriesPer100g))
                          sels
             in (\<lparr> ingredient = ingredient sel, amount = jround mealAmount \<rparr> # fst rest,
                 sel\<lparr> amount := jsub (amount sel) mealAmount \<rparr> # snd rest))
           else (let rest = fillMeal mealCalories currentMealCalories sels
                 in (fst rest, sel # snd rest))))"

fun fillMeals ::
  "jsnum \<Rightarrow> Meal list \<Rightarrow> IngredientSelection list \<Rightarrow> DietMeal list \<times> IngredientSelection list" where
  "fillMeals targetCalories [] sels = ([], sels)"
| "fillMeals targetCalories (m # ms) sels =
     (let mealCalories = jdiv (jmul targetCalories (kcalPercentage m)) (Fin 100);
          filled = fillMeal mealCalories (Fin 0) sels;
          rest = fillMeals targetCalories ms (snd filled)
      in (\<lparr> meal = m, ingredients = fst filled \<rparr> # fst rest, snd rest))"

text \<open>\<^verbatim>\<open>xs.reduce(f)\<close> with no initial value throws a TypeError on an empty array.\<close>

fun reduce1 :: "('a \<Rightarrow> 'a \<Rightarrow> 'a) \<Rightarrow> 'a list \<Rightarrow> error + 'a" where
  "reduce1 f [] = Inl TypeError"
| "reduce1 f (x # xs) = Inr (foldl f x xs)"

definition largerMeal :: "Meal \<Rightarrow> Meal \<Rightarrow> Meal" where
  "largerMeal mx m = (if jgt (kcalPercentage m) (kcalPercentage mx) then m else mx)"

text \<open>\<^verbatim>\<open>xs.indexOf(x)\<close>; \<open>None\<close> stands for \<^verbatim>\<open>-1\<close>.\<close>

fun indexOf :: "'a list \<Rightarrow> 'a \<Rightarrow> nat option" where
  "indexOf [] x = None"
| "indexOf (y # ys) x = (if y = x then Some 0 else map_option Suc (indexOf ys x))"

definition leftoverEntry :: "IngredientSelection \<Rightarrow> DietMealIngredient list" where
  "leftoverEntry sel =
     (let supp = includes_str (ingredient_name (ingredient sel)) ''Supplement'';
          minAmount = (if supp then Fin 1 else Fin 5)
      in if jgt (amount sel) minAmount
         then (let maxPerMeal = (if supp then Fin 5 else amount sel);
                   amountToAdd = jmin (amount sel) maxPerMeal
               in [\<lparr> ingredient = ingredient sel, amount = jround amountToAdd \<rparr>])
         else [])"

definition pushLeftovers :: "nat \<Rightarrow> DietMealIngredient list \<Rightarrow> DietMeal list \<Rightarrow> DietMeal list" where
  "pushLeftovers i extra dietMeals =
     dietMeals[i := (dietMeals ! i)\<lparr> ingredients := ingredients (dietMeals ! i) @ extra \<rparr>]"

definition distributeToMeals ::
  "sorter \<Rightarrow> IngredientSelection list \<Rightarrow> Meal list \<Rightarrow> jsnum \<Rightarrow> error + Diet" where
  "distributeToMeals srt selectedIngredients ms targetCalories =
     (let sortedIngredients = srt mealTimingCompare selectedIngredients;
          filled = fillMeals targetCalories ms sortedIngredients
      in case reduce1 largerMeal ms of
           Inl e \<Rightarrow> Inl e
         | Inr largestMeal \<Rightarrow>
             (let extra = concat (map leftoverEntry (snd filled))
              in case indexOf ms largestMeal of
                   None \<Rightarrow> if extra = [] then Inr \<lparr> meals = fst filled \<rparr> else Inl TypeError
                 | Some largestMealIndex \<Rightarrow>
                     Inr \<lparr> meals = pushLeftovers largestMealIndex extra (fst filled) \<rparr>))"

text \<open>
  \<^verbatim>\<open>getDiet\<close> of the greedy optimizer: \<open>None\<close> when the selection loop runs forever,
  \<open>Some (Inl e)\<close> when an error is thrown, \<open>Some (Inr d)\<close> when the diet \<open>d\<close> is returned.
\<close>

definition targetCalories_greedy :: "jsnum \<Rightarrow> GetDietInput \<Rightarrow> jsnum" where
  "targetCalories_greedy now input =
     adjustCaloriesForGoal now
       (calculateTDEE (sex input) (age input) (bodyWeight input) (bodyFatPercentage input)
          (activityLevel input))
       (goal input) (bodyWeight input)"

definition getDiet :: "sorter \<Rightarrow> jsnum \<Rightarrow> GetDietInput \<Rightarrow> (error + Diet) option" where
  "getDiet srt now input =
     (let targetCalories = targetCalories_greedy now input;
          targetMacrosInGrams = calculateTargetMacros targetCalories (input_targetMacros input)
      in case selectOptimalIngredients (input_ingredients input) (input_nutrients input)
                targetMacrosInGrams targetCalories of
           None \<Rightarrow> None
         | Some selectedIngredients \<Rightarrow>
             Some (distributeToMeals srt selectedIngredients (input_meals input) targetCalories))"

section \<open>Concrete inputs\<close>

text \<open>Entries of the repository's sample data and of its supplement examples.\<close>

definition vitaminC :: Nutrient where
  "vitaminC = \<lparr> nutrient_name = ''Vitamin C'', nrv = Fin 80, unit_of = ''mg'' \<rparr>"

definition vitaminD :: Nutrient where
  "vitaminD = \<lparr> nutrient_name = ''Vitamin D'', nrv = Fin 5, unit_of = ''ug'' \<rparr>"

definition brownRice :: Ingredient where
  "brownRice = \<lparr> nutrients = [],
                 macros = \<lparr> protein = Fin 2.6, carbs = Fin 23, fat = Fin 0.9 \<rparr>,
                 ingredient_name = ''Brown Rice (cooked)'' \<rparr>"

definition vitaminD3 :: Ingredient where
  "vitaminD3 = \<lparr> nutrients = [\<lparr> nutrient_amount = Fin 25, of_nutrient = vitaminD \<rparr>],
                 macros = \<lparr> protein = Fin 0, carbs = Fin 0.1, fat = Fin 0 \<rparr>,
                 ingredient_name = ''Vitamin D3 Supplement'' \<rparr>"

definition breakfast :: Meal where
  "breakfast = \<lparr> meal_name = ''Breakfast'', kcalPercentage = Fin 25 \<rparr>"

definition lunch :: Meal where
  "lunch = \<lparr> meal_name = ''Lunch'', kcalPercentage = Fin 35 \<rparr>"

definition dinner :: Meal where
  "dinner = \<lparr> meal_name = ''Dinner'', kcalPercentage = Fin 35 \<rparr>"

definition snack :: Meal where
  "snack = \<lparr> meal_name = ''Snack'', kcalPercentage = Fin 5 \<rparr>"

text \<open>The macro targets of 2000 kcal split 30/45/25.\<close>

definition targets2000 :: MacroTracking where
  "targets2000 = \<lparr> protein = Fin 150, carbs = Fin 225, fat = Fin (500 / 9) \<rparr>"

definition water :: Ingredient where
  "water = \<lparr> nutrients = [],
             macros = \<lparr> protein = Fin 0, carbs = Fin 0, fat = Fin 0 \<rparr>,
             ingredient_name = ''Water'' \<rparr>"

definition wheyProtein :: Ingredient where
  "wheyProtein = \<lparr> nutrients = [],
                   macros = \<lparr> protein = Fin 80, carbs = Fin 8, fat = Fin 6 \<rparr>,
                   ingredient_name = ''Whey Protein Supplement'' \<rparr>"

text \<open>
  A tracking entry as the selection loop keeps it: a finite positive NRV, a finite
  consumed amount, and the percentage \<^verbatim>\<open>consumed / nrv * 100\<close>.
\<close>

definition trackedOk :: "NutrientTracking \<Rightarrow> bool" where
  "trackedOk t =
     (case (nrv (nutrient t), consumed t) of
        (Fin n, Fin c) \<Rightarrow> 0 < n \<and> percentage t = Fin (c / n * 100)
      | _ \<Rightarrow> False)"

definition nonNegative :: "jsnum \<Rightarrow> bool" where
  "nonNegative x = (case x of Fin r \<Rightarrow> 0 \<le> r | _ \<Rightarrow> False)"

text \<open>Not decreased: the same nutrient, with consumed amount and percentage not below.\<close>

definition notDecreased :: "NutrientTracking \<Rightarrow> NutrientTracking \<Rightarrow> bool" where
  "notDecreased t t' =
     (nutrient t' = nutrient t \<and> jle (consumed t) (consumed t') \<and>
      jle (percentage t) (percentage t'))"

text \<open>An entry of a supplement, and the bound of 5 grams on such an entry.\<close>

definition suppEntry :: "IngredientSelection \<Rightarrow> bool" where
  "suppEntry e = isSupplement (ingredient_name (ingredient e))"

definition atMost5 :: "DietMealIngredient \<Rightarrow> bool" where
  "atMost5 e = (suppEntry e \<longrightarrow> jle (amount e) (Fin 5))"

definition sampleMeals :: "Meal list" where
  "sampleMeals = [breakfast, lunch, dinner, snack]"

definition sampleSelection :: "IngredientSelection list" where
  "sampleSelection = [\<lparr> ingredient = vitaminD3, amount = Fin 8 \<rparr>,
                      \<lparr> ingredient = brownRice, amount = Fin 300 \<rparr>]"

definition sampleGreedySelection :: "IngredientSelection list" where
  "sampleGreedySelection = [\<lparr> ingredient = vitaminD3, amount = Fin 10 \<rparr>]"

definition infeasible :: Solution where
  "infeasible = \<lparr> feasible = False, solved = (\<lambda>i. None) \<rparr>"

definition sampleInput :: "Ingredient list \<Rightarrow> Nutrient list \<Rightarrow> Meal list \<Rightarrow> GetDietInput" where
  "sampleInput ings ns ms =
     \<lparr> sex = Male, age = Fin 30, bodyWeight = Fin 75, bodyFatPercentage = Fin 15,
       activityLevel = Moderate, goal = Maintain,
       input_targetMacros = \<lparr> proteinPercentage = Fin 30, carbsPercentage = Fin 45,
                               fatPercentage = Fin 25 \<rparr>,
       input_ingredients = ings, input_nutrients = ns, input_meals = ms \<rparr>"

text \<open>
  The states of the selection loop in which it cannot progress on the catalog
  \<open>[water]\<close> with the nutrient \<open>vitaminC\<close>: nothing tracked, nothing eaten.
\<close>

definition stalled :: "SelectState \<Rightarrow> bool" where
  "stalled s = (st_tracking s = initializeNutrientTracking [vitaminC] \<and>
                st_macros s = \<lparr> protein = Fin 0, carbs = Fin 0, fat = Fin 0 \<rparr> \<and>
                st_calories s = Fin 0)"

definition nutrientsNonNegative :: "Ingredient \<Rightarrow> bool" where
  "nutrientsNonNegative i = list_all (\<lambda>n. nonNegative (nutrient_amount n)) (nutrients i)"

section \<open>Energy model: results\<close>

text \<open>
  C7. The energy model is deterministic: \<^verbatim>\<open>calculateTDEE\<close>, \<^verbatim>\<open>adjustCaloriesForGoal\<close>
  and \<^verbatim>\<open>calculateTargetMacros\<close> are functions of their arguments, and the one ambient
  input, the clock reading of the \<^verbatim>\<open>lose-fat\<close> case, has no influence: two calls with
  identical inputs, made at any two times, yield the same target calories and the same
  target macro grams.
\<close>

theorem energy_model_deterministic:
  "adjustCaloriesForGoal now1 (calculateTDEE sx ag bw bf al) g bw =
     adjustCaloriesForGoal now2 (calculateTDEE sx ag bw bf al) g bw \<and>
   calculateTargetMacros (adjustCaloriesForGoal now1 (calculateTDEE sx ag bw bf al) g bw) pcts =
     calculateTargetMacros (adjustCaloriesForGoal now2 (calculateTDEE sx ag bw bf al) g bw) pcts"
proof -
  have "adjustCaloriesForGoal now1 t g bw = adjustCaloriesForGoal now2 t g bw" for t
    by (cases g) (simp_all add: Let_def)
  then show ?thesis by simp
qed

text \<open>
  C8. For sex male, age 30, body weight 75, body fat 15 and moderate activity, the lean
  mass is 63.75, the BMR is 1747 and the TDEE is 2707.85, within the tolerance of 0.1
  (in exact arithmetic: the rounding of doubles is far below the tolerance).
\<close>

theorem tdee_scenario_1:
  "leanBodyMass (Fin 75) (Fin 15) = Fin 63.75 \<and>
   bmr (Fin 75) (Fin 15) = Fin 1747 \<and>
   calculateTDEE Male (Fin 30) (Fin 75) (Fin 15) Moderate = Fin (1747 * 1.55) \<and>
   (\<exists>r. calculateTDEE Male (Fin 30) (Fin 75) (Fin 15) Moderate = Fin r \<and>
        \<bar>r - 2707.85\<bar> \<le> 0.1)"
proof -
  have l: "leanBodyMass (Fin 75) (Fin 15) = Fin 63.75"
    by (simp add: leanBodyMass_def jsub_def)
  have b: "bmr (Fin 75) (Fin 15) = Fin 1747"
    by (simp add: bmr_def l)
  have t: "calculateTDEE Male (Fin 30) (Fin 75) (Fin 15) Moderate = Fin 2707.85"
    by (simp add: calculateTDEE_def b)
  have "\<bar>2707.85 - 2707.85\<bar> \<le> (0.1 :: real)" by simp
  with t have "\<exists>r. calculateTDEE Male (Fin 30) (Fin 75) (Fin 15) Moderate = Fin r \<and>
        \<bar>r - 2707.85\<bar> \<le> 0.1" by blast
  moreover have "calculateTDEE Male (Fin 30) (Fin 75) (Fin 15) Moderate = Fin (1747 * 1.55)"
    by (simp add: t)
  ultimately show ?thesis using l b by blast
qed

section \<open>Meal lists of the distributors\<close>

lemma lp_meals: "map meal (meals (distributeToMeals_LP sels ms tc)) = ms"
  by (simp add: distributeToMeals_LP_def Let_def comp_def)

lemma fillMeals_meals: "map meal (fst (fillMeals tc ms sels)) = ms"
  by (induction ms arbitrary: sels) (simp_all add: Let_def)

lemma pushLeftovers_meals: "map meal (pushLeftovers i extra dms) = map meal dms"
proof (cases "i < length dms")
  case True
  then show ?thesis by (simp add: pushLeftovers_def map_update list_update_same_conv)
next
  case False
  then show ?thesis by (simp add: pushLeftovers_def list_update_beyond)
qed

lemma foldl_largerMeal_mem: "foldl largerMeal m ms \<in> set (m # ms)"
  by (induction ms arbitrary: m) (auto simp: largerMeal_def)

lemma indexOf_mem: "x \<in> set xs \<Longrightarrow> \<exists>i. indexOf xs x = Some i"
  by (induction xs) auto

lemma greedy_meals:
  assumes "ms \<noteq> []"
  shows "\<exists>d. distributeToMeals srt sels ms tc = Inr d \<and> map meal (meals d) = ms"
proof -
  obtain m ms' where ms: "ms = m # ms'" using assms by (cases ms) auto
  have r: "reduce1 largerMeal ms = Inr (foldl largerMeal m ms')" by (simp add: ms)
  have "foldl largerMeal m ms' \<in> set ms" unfolding ms by (rule foldl_largerMeal_mem)
  then obtain i where i: "indexOf ms (foldl largerMeal m ms') = Some i"
    using indexOf_mem[of "foldl largerMeal m ms'" ms] by auto
  show ?thesis
    by (simp add: distributeToMeals_def Let_def r i pushLeftovers_meals fillMeals_meals)
qed

text \<open>
  C4. For a meal list that is not empty and any selection, the diet either distributor
  returns has exactly one entry per input meal, in the order of the input: the list of
  its entries' meals is the input meal list. (The greedy distributor returns a diet
  whatever order the engine's sort produces.)
\<close>

theorem one_entry_per_meal_in_order:
  assumes "ms \<noteq> []"
  shows "(\<exists>d. distributeToMeals srt sels ms tc = Inr d \<and> map meal (meals d) = ms) \<and>
         map meal (meals (distributeToMeals_LP sels ms tc)) = ms"
  using greedy_meals[OF assms] lp_meals by blast

theorem one_entry_per_meal_in_order_witness:
  "[breakfast, lunch, dinner, snack] \<noteq> [] \<and>
   (\<exists>d. distributeToMeals insertionSort [\<lparr> ingredient = brownRice, amount = Fin 300 \<rparr>]
          [breakfast, lunch, dinner, snack] (Fin 2000) = Inr d \<and>
        map meal (meals d) = [breakfast, lunch, dinner, snack]) \<and>
   map meal (meals (distributeToMeals_LP [\<lparr> ingredient = brownRice, amount = Fin 300 \<rparr>]
          [breakfast, lunch, dinner, snack] (Fin 2000))) = [breakfast, lunch, dinner, snack]"
  using one_entry_per_meal_in_order[of "[breakfast, lunch, dinner, snack]" insertionSort
          "[\<lparr> ingredient = brownRice, amount = Fin 300 \<rparr>]" "Fin 2000"]
  by simp

section \<open>LP selector: the fallback diet\<close>

lemma pushFirst_filter: "pushFirst (filter p xs) g = firstMatch p g xs"
  by (induction xs) (auto simp: pushFirst_def firstMatch_def)

lemma fallback_eq: "fallbackSelections cat = fallbackDiet_spec cat"
proof -
  have c: "filter (\<lambda>i. P i \<and> \<not> includes_str (ingredient_name i) ''Supplement'') cat =
           filter (\<lambda>i. \<not> isSupplement (ingredient_name i) \<and> P i) cat" for P
    by (rule filter_cong) (auto simp: isSupplement_def)
  show ?thesis
    by (simp add: fallbackSelections_def fallbackDiet_spec_def Let_def c pushFirst_filter
          firstMatch_def)
qed

text \<open>
  C5. Whenever the solve is not feasible, or the selection has fewer than 5 entries,
  \<^verbatim>\<open>getDiet\<close> of the LP optimizer returns (and does not throw) the fallback diet: the
  first catalog matches of the five rules of the specification, each only if a match
  exists, distributed to the meals.
\<close>

theorem lp_fallback_diet:
  assumes "\<not> feasible sol \<or> length (lpSelection sol (input_ingredients input)) < 5"
  shows "getDiet_LP sol input =
         Inr (distributeToMeals_LP (fallbackDiet_spec (input_ingredients input))
                (input_meals input) (targetCalories_LP input))"
proof -
  have "length (lpSelection sol (input_ingredients input)) < 5"
    using assms by (auto simp: lpSelection_def)
  then show ?thesis
    by (simp add: getDiet_LP_def Let_def createFallbackDiet_def fallback_eq)
qed

theorem lp_fallback_diet_witness:
  "\<not> feasible infeasible \<and>
   getDiet_LP infeasible (sampleInput [brownRice, vitaminD3] [vitaminD] [breakfast, lunch]) =
     Inr \<lparr> meals = [\<lparr> meal = breakfast,
                        ingredients = [\<lparr> ingredient = brownRice, amount = Fin 38 \<rparr>] \<rparr>,
                      \<lparr> meal = lunch,
                        ingredients = [\<lparr> ingredient = brownRice, amount = Fin 53 \<rparr>] \<rparr>] \<rparr>"
proof -
  have h: "\<not> feasible infeasible \<or>
           length (lpSelection infeasible
             (input_ingredients (sampleInput [brownRice, vitaminD3] [vitaminD] [breakfast, lunch]))) < 5"
    by (simp add: infeasible_def)
  have f: "fallbackDiet_spec [brownRice, vitaminD3] = [\<lparr> ingredient = brownRice, amount = Fin 150 \<rparr>]"
    by (simp add: fallbackDiet_spec_def firstMatch_def isSupplement_def isVeggie_def
          toLowerCase_def lowerChar_def brownRice_def vitaminD3_def jgt_def)
  have g: "getDiet_LP infeasible (sampleInput [brownRice, vitaminD3] [vitaminD] [breakfast, lunch]) =
           Inr (distributeToMeals_LP (fallbackDiet_spec [brownRice, vitaminD3]) [breakfast, lunch]
                  (targetCalories_LP (sampleInput [brownRice, vitaminD3] [vitaminD] [breakfast, lunch])))"
    using lp_fallback_diet[OF h] by (simp add: sampleInput_def)
  have e: "distributeToMeals_LP [\<lparr> ingredient = brownRice, amount = Fin 150 \<rparr>] [breakfast, lunch] tc =
           \<lparr> meals = [\<lparr> meal = breakfast,
                        ingredients = [\<lparr> ingredient = brownRice, amount = Fin 38 \<rparr>] \<rparr>,
                      \<lparr> meal = lunch,
                        ingredients = [\<lparr> ingredient = brownRice, amount = Fin 53 \<rparr>] \<rparr>] \<rparr>" for tc
    by (simp add: distributeToMeals_LP_def mealEntry_LP_def Let_def jge_def
          brownRice_def breakfast_def lunch_def)
  show ?thesis
    unfolding g f e by (simp add: infeasible_def)
qed

section \<open>LP distributor: supplements\<close>

lemma mealEntry_LP_supp:
  assumes "jround (amount s) = amount s" "jge (amount s) (Fin 1)" "suppEntry s"
  shows "filter suppEntry (mealEntry_LP m s) = (if meal_name m = ''Breakfast'' then [s] else [])"
  using assms by (simp add: mealEntry_LP_def suppEntry_def isSupplement_def jge_def)

lemma mealEntry_LP_food:
  assumes "\<not> suppEntry s"
  shows "filter suppEntry (mealEntry_LP m s) = []"
  using assms by (simp add: mealEntry_LP_def suppEntry_def isSupplement_def Let_def)

lemma mealEntries_LP_supp:
  assumes "\<forall>s\<in>set sels. suppEntry s \<longrightarrow> jround (amount s) = amount s \<and> jge (amount s) (Fin 1)"
  shows "filter suppEntry (concat (map (mealEntry_LP m) sels)) =
         (if meal_name m = ''Breakfast'' then filter suppEntry sels else [])"
  using assms
proof (induction sels)
  case Nil
  then show ?case by simp
next
  case (Cons s sels)
  show ?case
  proof (cases "suppEntry s")
    case True
    with Cons show ?thesis by (simp add: mealEntry_LP_supp)
  next
    case False
    with Cons show ?thesis by (simp add: mealEntry_LP_food)
  qed
qed

lemma jround_idem: "jround (jround x) = jround x"
  by (cases x) simp_all

lemma lp_selection_whole_grams:
  assumes "s \<in> set (lpSelection sol ings)"
  shows "jround (amount s) = amount s \<and> jge (amount s) (Fin 1)"
proof -
  from assms obtain p where "s \<in> set (convertVariable sol p)"
    by (auto simp: lpSelection_def split: if_splits)
  then obtain a where a: "jgt a (Fin 1)" "amount s = jround a"
    by (auto simp: convertVariable_def Let_def split: if_splits)
  have "jge (jround a) (Fin 1)"
  proof (cases a)
    case (Fin r)
    with a have "1 < r" by (simp add: jgt_def)
    then have "1 \<le> \<lfloor>r + 1 / 2\<rfloor>" by linarith
    then show ?thesis using Fin by (simp add: jge_def)
  qed (use a in \<open>simp_all add: jgt_def jge_def\<close>)
  then show ?thesis using a by (simp add: jround_idem)
qed

lemma fallback_whole_grams:
  assumes "s \<in> set (fallbackDiet_spec cat)"
  shows "jround (amount s) = amount s \<and> jge (amount s) (Fin 1)"
  using assms
  by (auto simp: fallbackDiet_spec_def firstMatch_def jge_def split: option.splits)

lemma supp_vitaminD3: "suppEntry \<lparr> ingredient = vitaminD3, amount = a \<rparr>"
  by (simp add: suppEntry_def isSupplement_def vitaminD3_def)

lemma supp_brownRice: "\<not> suppEntry \<lparr> ingredient = brownRice, amount = a \<rparr>"
  by (simp add: suppEntry_def isSupplement_def brownRice_def)

text \<open>
  C9. In the LP distributor a supplement is placed only in a meal named exactly
  \<^verbatim>\<open>Breakfast\<close>, which receives the whole selected amount. For selections in whole
  grams of at least 1 (as the LP selector and the fallback produce them), the diet has
  one entry per input meal, in order, and the supplement entries of the entry of a meal
  are the supplement selections themselves when the meal is named \<^verbatim>\<open>Breakfast\<close>, and
  none otherwise; so with no meal of that name no supplement is in the diet.
\<close>

theorem lp_supplements_in_breakfast_only:
  assumes "\<forall>s\<in>set sels. suppEntry s \<longrightarrow> jround (amount s) = amount s \<and> jge (amount s) (Fin 1)"
  shows "map meal (meals (distributeToMeals_LP sels ms tc)) = ms \<and>
         map (\<lambda>dm. filter suppEntry (ingredients dm)) (meals (distributeToMeals_LP sels ms tc)) =
           map (\<lambda>m. if meal_name m = ''Breakfast'' then filter suppEntry sels else []) ms \<and>
         (\<forall>dm\<in>set (meals (distributeToMeals_LP sels ms tc)).
            filter suppEntry (ingredients dm) =
              (if meal_name (meal dm) = ''Breakfast'' then filter suppEntry sels else [])) \<and>
         ((\<forall>m\<in>set ms. meal_name m \<noteq> ''Breakfast'') \<longrightarrow>
          (\<forall>dm\<in>set (meals (distributeToMeals_LP sels ms tc)).
             filter suppEntry (ingredients dm) = []))"
proof -
  have e: "filter suppEntry (concat (map (mealEntry_LP m) sels)) =
           (if meal_name m = ''Breakfast'' then filter suppEntry sels else [])" for m
    by (rule mealEntries_LP_supp[OF assms])
  have "map (\<lambda>dm. filter suppEntry (ingredients dm)) (meals (distributeToMeals_LP sels ms tc)) =
        map (\<lambda>m. if meal_name m = ''Breakfast'' then filter suppEntry sels else []) ms"
    by (simp add: distributeToMeals_LP_def Let_def comp_def e)
  moreover have "\<forall>dm\<in>set (meals (distributeToMeals_LP sels ms tc)).
            filter suppEntry (ingredients dm) =
              (if meal_name (meal dm) = ''Breakfast'' then filter suppEntry sels else [])"
    using e by (auto simp: distributeToMeals_LP_def Let_def)
  moreover have "(\<forall>m\<in>set ms. meal_name m \<noteq> ''Breakfast'') \<longrightarrow>
          (\<forall>dm\<in>set (meals (distributeToMeals_LP sels ms tc)).
             filter suppEntry (ingredients dm) = [])"
    using e by (auto simp: distributeToMeals_LP_def Let_def)
  ultimately show ?thesis using lp_meals[of sels ms tc] by blast
qed

theorem lp_supplements_in_breakfast_only_witness:
  "list_all (\<lambda>s. \<not> suppEntry s \<or> (jround (amount s) = amount s \<and> jge (amount s) (Fin 1)))
     sampleSelection \<and>
   map meal (meals (distributeToMeals_LP sampleSelection sampleMeals (Fin 2000))) =
     [breakfast, lunch, dinner, snack] \<and>
   map (\<lambda>dm. filter suppEntry (ingredients dm))
     (meals (distributeToMeals_LP sampleSelection sampleMeals (Fin 2000))) =
     [[\<lparr> ingredient = vitaminD3, amount = Fin 8 \<rparr>], [], [], []]"
proof -
  have h: "\<forall>s\<in>set sampleSelection.
             suppEntry s \<longrightarrow> jround (amount s) = amount s \<and> jge (amount s) (Fin 1)"
    by (simp add: sampleSelection_def jge_def)
  have f: "filter suppEntry sampleSelection = [\<lparr> ingredient = vitaminD3, amount = Fin 8 \<rparr>]"
    by (simp add: sampleSelection_def supp_vitaminD3 supp_brownRice)
  have n: "map (\<lambda>m. if meal_name m = ''Breakfast'' then filter suppEntry sampleSelection else [])
             sampleMeals = [[\<lparr> ingredient = vitaminD3, amount = Fin 8 \<rparr>], [], [], []]"
    by (simp add: f sampleMeals_def breakfast_def lunch_def dinner_def snack_def)
  from lp_supplements_in_breakfast_only[OF h, of sampleMeals "Fin 2000"]
  have "map meal (meals (distributeToMeals_LP sampleSelection sampleMeals (Fin 2000))) = sampleMeals"
    and "map (\<lambda>dm. filter suppEntry (ingredients dm))
           (meals (distributeToMeals_LP sampleSelection sampleMeals (Fin 2000))) =
         map (\<lambda>m. if meal_name m = ''Breakfast'' then filter suppEntry sampleSelection else [])
           sampleMeals"
    by blast+
  with h n show ?thesis by (simp add: list_all_iff sampleMeals_def)
qed

section \<open>Greedy distributor: supplements in a meal\<close>

lemma capped_le5: "x \<noteq> NaN \<Longrightarrow> jle (jround (jmin x (Fin 5))) (Fin 5)"
proof (cases x)
  case (Fin a)
  show ?thesis
  proof (cases "a \<le> 5")
    case True
    then have "\<lfloor>a + 1 / 2\<rfloor> \<le> 5" by linarith
    then show ?thesis using Fin True by (simp add: jmin_def)
  next
    case False
    then show ?thesis using Fin by (simp add: jmin_def)
  qed
qed (simp_all add: jmin_def)

lemma portion_fin:
  assumes "jgt (jmin (Fin 1) y) (Fin 0.1)"
  shows "\<exists>q. jmin (Fin 1) y = Fin q \<and> q \<noteq> 0"
  using assms by (cases y) (auto simp: jmin_def jgt_def split: if_splits)

lemma jdiv_NaN_right: "jdiv r NaN = NaN"
  by (cases r) simp_all

lemma portion_nan: "a = NaN \<Longrightarrow> jmin (Fin 1) (jdiv r (jmul (jdiv a c) d)) = NaN"
  by (simp add: jmin_def jdiv_NaN_right)

lemma mul_not_nan: "a \<noteq> NaN \<Longrightarrow> q \<noteq> 0 \<Longrightarrow> jmul a (Fin q) \<noteq> NaN"
  by (cases a) (simp_all add: signedInf_def)

lemma fillMeal_entries:
  "e \<in> set (fst (fillMeal mc cur sels)) \<Longrightarrow> atMost5 e"
proof (induction sels arbitrary: cur)
  case Nil
  then show ?case by simp
next
  case (Cons s sels)
  let ?per = "calculateCaloriesFromMacros (macros (ingredient s))"
  let ?p = "jmin (Fin 1) (jdiv (jsub mc cur) (jmul (jdiv (amount s) (Fin 100)) ?per))"
  show ?case
  proof (cases "jge cur (jmul mc (Fin 0.95))")
    case True
    with Cons.prems show ?thesis by simp
  next
    case nb: False
    show ?thesis
    proof (cases "jgt ?p (Fin 0.1)")
      case False
      with nb Cons.prems have "e \<in> set (fst (fillMeal mc cur sels))"
        by (simp add: Let_def)
      then show ?thesis by (rule Cons.IH)
    next
      case True
      then obtain q where q: "?p = Fin q" "q \<noteq> 0" using portion_fin by blast
      have an: "amount s \<noteq> NaN"
      proof
        assume "amount s = NaN"
        then have "?p = NaN" by (rule portion_nan)
        with q show False by simp
      qed
      let ?raw = "jmul (amount s) ?p"
      let ?amt = "if includes_str (ingredient_name (ingredient s)) ''Supplement''
                then jmin ?raw (Fin 5) else ?raw"
      have raw: "?raw \<noteq> NaN" using mul_not_nan[OF an q(2)] q(1) by simp
      let ?cur' = "jadd cur (jmul (jdiv ?amt (Fin 100)) ?per)"
      from nb True Cons.prems
      have "e = \<lparr> ingredient = ingredient s, amount = jround ?amt \<rparr> \<or>
            e \<in> set (fst (fillMeal mc ?cur' sels))"
        by (simp add: Let_def)
      then show ?thesis
      proof
        assume "e = \<lparr> ingredient = ingredient s, amount = jround ?amt \<rparr>"
        then show ?thesis using capped_le5[OF raw]
          by (simp add: atMost5_def suppEntry_def isSupplement_def)
      next
        assume "e \<in> set (fst (fillMeal mc ?cur' sels))"
        then show ?thesis by (rule Cons.IH)
      qed
    qed
  qed
qed

lemma fillMeals_entries:
  "dm \<in> set (fst (fillMeals tc ms sels)) \<Longrightarrow> e \<in> set (ingredients dm) \<Longrightarrow> atMost5 e"
proof (induction ms arbitrary: sels)
  case Nil
  then show ?case by simp
next
  case (Cons m ms)
  let ?mc = "jdiv (jmul tc (kcalPercentage m)) (Fin 100)"
  let ?filled = "fillMeal ?mc (Fin 0) sels"
  from Cons.prems(1)
  have "dm = \<lparr> meal = m, ingredients = fst ?filled \<rparr> \<or>
        dm \<in> set (fst (fillMeals tc ms (snd ?filled)))"
    by (simp add: Let_def)
  then show ?case
  proof
    assume "dm = \<lparr> meal = m, ingredients = fst ?filled \<rparr>"
    with Cons.prems(2) have "e \<in> set (fst ?filled)" by simp
    then show ?thesis by (rule fillMeal_entries)
  next
    assume "dm \<in> set (fst (fillMeals tc ms (snd ?filled)))"
    then show ?thesis using Cons.prems(2) by (rule Cons.IH)
  qed
qed

lemma leftover_entries: "e \<in> set (leftoverEntry s) \<Longrightarrow> atMost5 e"
proof -
  assume e: "e \<in> set (leftoverEntry s)"
  show ?thesis
  proof (cases "includes_str (ingredient_name (ingredient s)) ''Supplement''")
    case False
    with e show ?thesis
      by (auto simp: leftoverEntry_def Let_def atMost5_def suppEntry_def isSupplement_def
            split: if_splits)
  next
    case True
    with e have g: "jgt (amount s) (Fin 1)"
      and ee: "e = \<lparr> ingredient = ingredient s, amount = jround (jmin (amount s) (Fin 5)) \<rparr>"
      by (auto simp: leftoverEntry_def Let_def split: if_splits)
    from g have "amount s \<noteq> NaN" by (auto simp: jgt_def)
    then show ?thesis using capped_le5 ee by (simp add: atMost5_def)
  qed
qed

lemma pushLeftovers_entries:
  assumes "dm \<in> set (pushLeftovers i extra dms)" "e \<in> set (ingredients dm)"
  shows "e \<in> set extra \<or> (\<exists>dm'\<in>set dms. e \<in> set (ingredients dm'))"
proof (cases "i < length dms")
  case False
  then have "pushLeftovers i extra dms = dms" by (simp add: pushLeftovers_def list_update_beyond)
  with assms show ?thesis by auto
next
  case True
  define x where "x = (dms ! i)\<lparr> ingredients := ingredients (dms ! i) @ extra \<rparr>"
  have "set (dms[i := x]) \<subseteq> insert x (set dms)" by (rule set_update_subset_insert)
  moreover have "dm \<in> set (dms[i := x])" using assms(1) by (simp add: pushLeftovers_def x_def)
  ultimately have "dm = x \<or> dm \<in> set dms" by auto
  then show ?thesis
  proof
    assume "dm = x"
    with assms(2) have "e \<in> set (ingredients (dms ! i)) \<or> e \<in> set extra"
      by (simp add: x_def)
    moreover have "dms ! i \<in> set dms" using True by (rule nth_mem)
    ultimately show ?thesis by blast
  next
    assume "dm \<in> set dms"
    with assms(2) show ?thesis by blast
  qed
qed

lemmas distribute_defs =
  distributeToMeals_def insertionSort_def mealTimingCompare_def
  calculateCaloriesFromMacros_def leftoverEntry_def pushLeftovers_def largerMeal_def
  jgt_def jge_def jsub_def jmin_def signedInf_def Let_def

text \<open>
  C2 (amended). In every diet the greedy distributor returns, each entry of a supplement
  (an ingredient whose name contains \<^verbatim>\<open>Supplement\<close>) in a meal is at most 5 grams.
  (The LP distributor has no cap per meal.)
\<close>

theorem greedy_supplement_entry_at_most_5g:
  assumes "distributeToMeals srt sels ms tc = Inr d"
    and "dm \<in> set (meals d)" and "e \<in> set (ingredients dm)"
    and "isSupplement (ingredient_name (ingredient e))"
  shows "jle (amount e) (Fin 5)"
proof -
  let ?f = "fillMeals tc ms (srt mealTimingCompare sels)"
  let ?extra = "concat (map leftoverEntry (snd ?f))"
  have ex: "x \<in> set ?extra \<Longrightarrow> atMost5 x" for x
    by (auto dest: leftover_entries)
  from assms(1) have "d = \<lparr> meals = fst ?f \<rparr> \<or> (\<exists>i. d = \<lparr> meals = pushLeftovers i ?extra (fst ?f) \<rparr>)"
    by (auto simp: distributeToMeals_def Let_def split: sum.splits option.splits if_splits)
  then have "atMost5 e"
  proof
    assume "d = \<lparr> meals = fst ?f \<rparr>"
    with assms(2,3) show ?thesis using fillMeals_entries by simp
  next
    assume "\<exists>i. d = \<lparr> meals = pushLeftovers i ?extra (fst ?f) \<rparr>"
    then obtain i where "d = \<lparr> meals = pushLeftovers i ?extra (fst ?f) \<rparr>" by blast
    with assms(2) have "dm \<in> set (pushLeftovers i ?extra (fst ?f))" by simp
    from pushLeftovers_entries[OF this assms(3)] show ?thesis
      using ex fillMeals_entries by blast
  qed
  with assms(4) show ?thesis by (simp add: atMost5_def suppEntry_def)
qed

theorem greedy_supplement_entry_at_most_5g_witness:
  "distributeToMeals insertionSort sampleGreedySelection [breakfast] (Fin 2000) =
     Inr \<lparr> meals = [\<lparr> meal = breakfast,
                        ingredients = [\<lparr> ingredient = vitaminD3, amount = Fin 5 \<rparr>,
                                       \<lparr> ingredient = vitaminD3, amount = Fin 5 \<rparr>] \<rparr>] \<rparr> \<and>
   isSupplement (ingredient_name vitaminD3) \<and>
   jle (amount \<lparr> ingredient = vitaminD3, amount = Fin 5 \<rparr>) (Fin 5)"
proof -
  let ?e = "\<lparr> ingredient = vitaminD3, amount = Fin 5 \<rparr>"
  let ?dm = "\<lparr> meal = breakfast, ingredients = [?e, ?e] \<rparr>"
  have d: "distributeToMeals insertionSort sampleGreedySelection [breakfast] (Fin 2000) =
           Inr \<lparr> meals = [?dm] \<rparr>"
    by (simp add: distribute_defs sampleGreedySelection_def vitaminD3_def breakfast_def)
  have s: "isSupplement (ingredient_name (ingredient ?e))"
    by (simp add: isSupplement_def vitaminD3_def)
  have "jle (amount ?e) (Fin 5)"
    by (rule greedy_supplement_entry_at_most_5g[OF d _ _ s, of ?dm]) simp_all
  with d s show ?thesis by simp
qed

text \<open>
  The claim C2 as stated fails for the LP distributor: a supplement selected at 8 grams
  is placed whole in the breakfast.
\<close>

theorem lp_supplement_above_5g_in_meal:
  "ingredients (meals (distributeToMeals_LP sampleSelection sampleMeals (Fin 2000)) ! 0) =
     [\<lparr> ingredient = vitaminD3, amount = Fin 8 \<rparr>, \<lparr> ingredient = brownRice, amount = Fin 75 \<rparr>] \<and>
   isSupplement (ingredient_name vitaminD3) \<and>
   \<not> jle (Fin 8) (Fin 5)"
  by (simp add: distributeToMeals_LP_def sampleSelection_def sampleMeals_def mealEntry_LP_def
        Let_def jge_def isSupplement_def vitaminD3_def brownRice_def breakfast_def)

section \<open>Selection loop: the choice and its amount\<close>

lemmas select_defs =
  selectStep_def findBestIngredient_def betterIngredient_def calculateIngredientScore_def
  calculateCaloriesFromMacros_def calculateMacroScore_def calculateOptimalAmount_def
  calculateMacroLimitedAmount_def macroLimit_def practicalLimits_def updateTracking_def
  addMacros_def calculateTotalCalories_def initialState_def initializeNutrientTracking_def
  loopCondition_def areAllNRVsMet_def
  jgt_def jge_def jsub_def jmin_def jmax_def signedInf_def Let_def

lemma fold_better_mem:
  "fst (foldl (betterIngredient tr cm tm rem) acc ings) = Some b \<Longrightarrow>
   fst acc = Some b \<or> b \<in> set ings"
proof (induction ings arbitrary: acc)
  case Nil
  then show ?case by simp
next
  case (Cons i ings)
  from Cons.prems have "fst (foldl (betterIngredient tr cm tm rem)
                               (betterIngredient tr cm tm rem acc i) ings) = Some b"
    by simp
  from Cons.IH[OF this] show ?case
    by (auto simp: betterIngredient_def Let_def split: if_splits)
qed

lemma findBest_mem:
  assumes "findBestIngredient ings tr cm tm rem = Some best"
  shows "fst best \<in> set ings"
proof -
  let ?r = "foldl (betterIngredient tr cm tm rem) (None, NInf) ings"
  from assms have "fst ?r = Some (fst best)"
    by (auto simp: findBestIngredient_def split: prod.splits option.splits)
  from fold_better_mem[OF this] show ?thesis by simp
qed

lemma practicalLimits_range:
  "practicalLimits nm x = NaN \<or> (\<exists>a. practicalLimits nm x = Fin a \<and> 1 \<le> a \<and> a \<le> 500)"
  by (cases x) (auto simp: practicalLimits_def Let_def jmin_def jmax_def)

lemma optimalAmount_range:
  "calculateOptimalAmount ing tr cm tm rem = NaN \<or>
   (\<exists>a. calculateOptimalAmount ing tr cm tm rem = Fin a \<and> 1 \<le> a \<and> a \<le> 500)"
  unfolding calculateOptimalAmount_def Let_def by (rule practicalLimits_range)

section \<open>Nutrient tracker: monotonicity\<close>

lemma jle_trans: "jle x y \<Longrightarrow> jle y z \<Longrightarrow> jle x z"
  by (cases x; cases y; cases z) simp_all

lemma trackedOk_refl: "trackedOk t \<Longrightarrow> notDecreased t t"
  by (auto simp: trackedOk_def notDecreased_def split: jsnum.splits)

lemma notDecreased_trans: "notDecreased a b \<Longrightarrow> notDecreased b c \<Longrightarrow> notDecreased a c"
  by (auto simp: notDecreased_def intro: jle_trans)

lemma bump_one:
  assumes "trackedOk t" "0 \<le> x"
  defines "t' \<equiv> t\<lparr> consumed := jadd (consumed t) (Fin x),
                    percentage := jmul (jdiv (jadd (consumed t) (Fin x)) (nrv (nutrient t))) (Fin 100) \<rparr>"
  shows "trackedOk t' \<and> notDecreased t t'"
proof -
  from assms(1) obtain n c where nc: "nrv (nutrient t) = Fin n" "consumed t = Fin c" "0 < n"
      "percentage t = Fin (c / n * 100)"
    by (auto simp: trackedOk_def split: jsnum.splits)
  have "c / n * 100 \<le> (c + x) / n * 100"
    using nc(3) assms(2) by (simp add: divide_le_cancel)
  then show ?thesis using nc assms(2)
    by (simp add: t'_def trackedOk_def notDecreased_def)
qed

lemma bumpTracking_mono:
  assumes "list_all trackedOk tr" "0 \<le> x"
  shows "list_all2 notDecreased tr (bumpTracking nm (Fin x) tr) \<and>
         list_all trackedOk (bumpTracking nm (Fin x) tr)"
  using assms(1)
proof (induction tr)
  case Nil
  then show ?case by simp
next
  case (Cons t ts)
  then have t: "trackedOk t" and ts: "list_all trackedOk ts" by simp_all
  have r: "list_all2 notDecreased ts ts"
    using ts by (induction ts) (simp_all add: trackedOk_refl)
  show ?case
  proof (cases "nutrient_name (nutrient t) = nm")
    case True
    with bump_one[OF t assms(2)] ts r show ?thesis by (simp add: Let_def)
  next
    case False
    with Cons.IH[OF ts] t show ?thesis by (simp add: trackedOk_refl)
  qed
qed

lemma list_all2_notDecreased_trans:
  "list_all2 notDecreased a b \<Longrightarrow> list_all2 notDecreased b c \<Longrightarrow> list_all2 notDecreased a c"
  using list_all2_trans[of notDecreased notDecreased notDecreased a b c] notDecreased_trans
  by blast

lemma fold_bump_mono:
  assumes "list_all trackedOk tr" "0 \<le> a" "list_all (\<lambda>n. nonNegative (nutrient_amount n)) ns"
  shows "list_all2 notDecreased tr
           (foldl (\<lambda>tr n. bumpTracking (nutrient_name (of_nutrient n))
                            (jmul (nutrient_amount n) (Fin a)) tr) tr ns) \<and>
         list_all trackedOk
           (foldl (\<lambda>tr n. bumpTracking (nutrient_name (of_nutrient n))
                            (jmul (nutrient_amount n) (Fin a)) tr) tr ns)"
  using assms(1,3)
proof (induction ns arbitrary: tr)
  case Nil
  then have "list_all2 notDecreased tr tr"
    by (induction tr) (simp_all add: trackedOk_refl)
  with Nil show ?case by simp
next
  case (Cons n ns)
  from Cons.prems(2) obtain x where x: "nutrient_amount n = Fin x" "0 \<le> x"
    by (auto simp: nonNegative_def split: jsnum.splits)
  let ?tr1 = "bumpTracking (nutrient_name (of_nutrient n)) (Fin (x * a)) tr"
  have xa: "0 \<le> x * a" using x(2) assms(2) by simp
  from bumpTracking_mono[OF Cons.prems(1) xa]
  have s1: "list_all2 notDecreased tr ?tr1" and o1: "list_all trackedOk ?tr1" by simp_all
  from Cons.prems(2) have ns: "list_all (\<lambda>n. nonNegative (nutrient_amount n)) ns" by simp
  from Cons.IH[OF o1 ns] s1 show ?case
    by (auto simp: x intro: list_all2_notDecreased_trans)
qed

lemma updateTracking_mono:
  assumes "list_all trackedOk tr" "0 \<le> a"
    "list_all (\<lambda>n. nonNegative (nutrient_amount n)) (nutrients ing)"
  shows "list_all2 notDecreased tr (fst (updateTracking ing (Fin a) tr m)) \<and>
         list_all trackedOk (fst (updateTracking ing (Fin a) tr m))"
proof -
  have "0 \<le> a / 100" using assms(2) by simp
  from fold_bump_mono[OF assms(1) this assms(3)] show ?thesis
    by (simp add: updateTracking_def Let_def)
qed

lemma initial_tracking_ok:
  assumes "list_all (\<lambda>n. case nrv n of Fin r \<Rightarrow> 0 < r | _ \<Rightarrow> False) ns"
  shows "list_all trackedOk (initializeNutrientTracking ns)"
  using assms
  by (induction ns) (auto simp: initializeNutrientTracking_def trackedOk_def split: jsnum.splits)

lemma jmul_NaN_right: "jmul x NaN = NaN"
  by (cases x) simp_all

lemma jadd_NaN_right: "jadd x NaN = NaN"
  by (cases x) simp_all

lemma calories_NaN: "calculateTotalCalories (addMacros NaN m im) = NaN"
  by (simp add: calculateTotalCalories_def addMacros_def jmul_NaN_right jadd_NaN_right)

lemma step_tracking_mono:
  assumes ok: "list_all trackedOk (st_tracking s)"
    and cat: "list_all nutrientsNonNegative ings"
    and step: "selectStep ings tm tc s = Some s'"
  shows "st_calories s' = NaN \<or>
         (list_all2 notDecreased (st_tracking s) (st_tracking s') \<and>
          list_all trackedOk (st_tracking s'))"
proof -
  from step obtain best where
    best: "findBestIngredient ings (st_tracking s) (st_macros s) tm (jsub tc (st_calories s)) = Some best"
    by (auto simp: selectStep_def split: option.splits)
  let ?b = "fst best"
  let ?amt = "calculateOptimalAmount ?b (st_tracking s) (st_macros s) tm (jsub tc (st_calories s))"
  from findBest_mem[OF best] cat
  have nn: "list_all (\<lambda>n. nonNegative (nutrient_amount n)) (nutrients ?b)"
    by (auto simp: list_all_iff nutrientsNonNegative_def)
  from optimalAmount_range[of ?b "st_tracking s" "st_macros s" tm "jsub tc (st_calories s)"]
  show ?thesis
  proof
    assume n: "?amt = NaN"
    with step best have "st_calories s' =
        calculateTotalCalories (addMacros NaN (st_macros s) (macros ?b))"
      by (auto simp: selectStep_def Let_def updateTracking_def)
    then show ?thesis by (simp add: calories_NaN)
  next
    assume "\<exists>a. ?amt = Fin a \<and> 1 \<le> a \<and> a \<le> 500"
    then obtain a where a: "?amt = Fin a" "1 \<le> a" "a \<le> 500" by blast
    from step best a have "st_tracking s' =
        fst (updateTracking ?b (Fin a) (st_tracking s) (st_macros s))"
      by (auto simp: selectStep_def Let_def)
    moreover have "0 \<le> a" using a(2) by simp
    ultimately show ?thesis using updateTracking_mono[OF ok _ nn, of a "st_macros s"] by simp
  qed
qed

text \<open>
  C6. The tracking never decreases. A call of \<^verbatim>\<open>updateTracking\<close> with a non-negative
  amount and non-negative nutrient amounts per 100 g, on a tracking as the loop keeps it
  (positive NRVs, percentage equal to \<^verbatim>\<open>consumed / nrv * 100\<close>), leaves the consumed
  amount and the percentage of every tracked nutrient at or above their values before
  the call, and keeps the tracking in that form. So does every iteration of the selection
  loop on a catalog with non-negative nutrient amounts, unless its numbers have
  degenerated to NaN (on which the loop stops).
\<close>

theorem tracking_percentages_non_decreasing:
  assumes "list_all trackedOk tr"
  shows "(0 \<le> a \<and> nutrientsNonNegative ing \<longrightarrow>
            list_all2 notDecreased tr (fst (updateTracking ing (Fin a) tr m)) \<and>
            list_all trackedOk (fst (updateTracking ing (Fin a) tr m))) \<and>
         (st_tracking s = tr \<and> list_all nutrientsNonNegative ings \<and>
          selectStep ings tm tc s = Some s' \<longrightarrow>
            st_calories s' = NaN \<or>
            (list_all2 notDecreased tr (st_tracking s') \<and> list_all trackedOk (st_tracking s')))"
  using assms updateTracking_mono[of tr a ing m] step_tracking_mono[of s ings tm tc s']
  by (auto simp: nutrientsNonNegative_def)

theorem tracking_percentages_non_decreasing_witness:
  "list_all trackedOk (initializeNutrientTracking [vitaminD]) \<and>
   (0 :: real) \<le> 10 \<and> nutrientsNonNegative vitaminD3 \<and>
   fst (updateTracking vitaminD3 (Fin 10) (initializeNutrientTracking [vitaminD])
          \<lparr> protein = Fin 0, carbs = Fin 0, fat = Fin 0 \<rparr>) =
     [\<lparr> nutrient = vitaminD, consumed = Fin 2.5, percentage = Fin 50 \<rparr>] \<and>
   list_all2 notDecreased (initializeNutrientTracking [vitaminD])
     (fst (updateTracking vitaminD3 (Fin 10) (initializeNutrientTracking [vitaminD])
             \<lparr> protein = Fin 0, carbs = Fin 0, fat = Fin 0 \<rparr>))"
proof -
  have h: "list_all trackedOk (initializeNutrientTracking [vitaminD])"
    by (simp add: initializeNutrientTracking_def trackedOk_def vitaminD_def)
  have n: "nutrientsNonNegative vitaminD3"
    by (simp add: nutrientsNonNegative_def vitaminD3_def nonNegative_def)
  have e: "fst (updateTracking vitaminD3 (Fin 10) (initializeNutrientTracking [vitaminD])
                  \<lparr> protein = Fin 0, carbs = Fin 0, fat = Fin 0 \<rparr>) =
           [\<lparr> nutrient = vitaminD, consumed = Fin 2.5, percentage = Fin 50 \<rparr>]"
    by (simp add: updateTracking_def initializeNutrientTracking_def vitaminD3_def vitaminD_def
          Let_def)
  from tracking_percentages_non_decreasing[OF h, of 10 vitaminD3
         "\<lparr> protein = Fin 0, carbs = Fin 0, fat = Fin 0 \<rparr>"] n
  have "list_all2 notDecreased (initializeNutrientTracking [vitaminD])
     (fst (updateTracking vitaminD3 (Fin 10) (initializeNutrientTracking [vitaminD])
             \<lparr> protein = Fin 0, carbs = Fin 0, fat = Fin 0 \<rparr>))"
    by simp
  with h n e show ?thesis by simp
qed

section \<open>Balancer and selection loop: bounds\<close>











section \<open>Selection loop: a catalog on which it runs forever\<close>

lemma stalled_condition:
  assumes "stalled s" "0 < t"
  shows "loopCondition (Fin t) s"
  using assms
  by (simp add: stalled_def loopCondition_def areAllNRVsMet_def initializeNutrientTracking_def
        jge_def)

lemma water_best:
  "findBestIngredient [water] (initializeNutrientTracking [vitaminC])
     \<lparr> protein = Fin 0, carbs = Fin 0, fat = Fin 0 \<rparr> tm (jsub (Fin t) (Fin 0)) =
   Some (water, Fin 5)" if "0 < t"
  using that
  by (simp add: findBestIngredient_def betterIngredient_def
        calculateIngredientScore_def calculateCaloriesFromMacros_def calculateMacroScore_def
        water_def jgt_def jsub_def Let_def)

lemma water_amount:
  "calculateOptimalAmount water (initializeNutrientTracking [vitaminC])
     \<lparr> protein = Fin 0, carbs = Fin 0, fat = Fin 0 \<rparr> tm (jsub (Fin t) (Fin 0)) = Fin 500"
  if "0 < t"
  using that
  by (simp add: calculateOptimalAmount_def calculateCaloriesFromMacros_def
        calculateMacroLimitedAmount_def macroLimit_def practicalLimits_def
        water_def jgt_def jsub_def jmin_def jmax_def signedInf_def Let_def)

lemma water_update:
  "updateTracking water (Fin 500) tr \<lparr> protein = Fin 0, carbs = Fin 0, fat = Fin 0 \<rparr> =
     (tr, \<lparr> protein = Fin 0, carbs = Fin 0, fat = Fin 0 \<rparr>)"
  by (simp add: updateTracking_def addMacros_def water_def)

lemma stalled_step:
  assumes "stalled s" "0 < t"
  shows "\<exists>s'. selectStep [water] tm (Fin t) s = Some s' \<and> stalled s'"
  using assms(1)
  by (simp add: selectStep_def stalled_def water_best[OF assms(2)] water_amount[OF assms(2)]
        water_update calculateTotalCalories_def)

lemma stalled_never_returns:
  assumes "selectLoop ings tm tc s = Some r"
  shows "\<not> (ings = [water] \<and> (\<exists>t. tc = Fin t \<and> 0 < t) \<and> stalled s)"
proof (rule selectLoop.raw_induct[where P = "\<lambda>ings tm tc s r.
          \<not> (ings = [water] \<and> (\<exists>t. tc = Fin t \<and> 0 < t) \<and> stalled s)", OF _ assms])
  fix loop :: "Ingredient list \<Rightarrow> Macros \<Rightarrow> jsnum \<Rightarrow> SelectState \<Rightarrow> SelectState option"
  fix ings tm tc s r
  assume IH: "\<And>ings tm tc s r. loop ings tm tc s = Some r \<Longrightarrow>
                \<not> (ings = [water] \<and> (\<exists>t. tc = Fin t \<and> 0 < t) \<and> stalled s)"
    and body: "(if loopCondition tc s
                then case selectStep ings tm tc s of None \<Rightarrow> Some s
                     | Some s' \<Rightarrow> loop ings tm tc s'
                else Some s) = Some r"
  show "\<not> (ings = [water] \<and> (\<exists>t. tc = Fin t \<and> 0 < t) \<and> stalled s)"
  proof
    assume h: "ings = [water] \<and> (\<exists>t. tc = Fin t \<and> 0 < t) \<and> stalled s"
    then obtain t where t: "tc = Fin t" "0 < t" by blast
    from h have st: "stalled s" and w: "ings = [water]" by blast+
    from stalled_step[OF st t(2), of tm] obtain s' where
      s': "selectStep [water] tm (Fin t) s = Some s'" "stalled s'" by blast
    from body have "loop [water] tm (Fin t) s' = Some r"
      by (simp add: w t(1) s'(1) stalled_condition[OF st t(2)])
    from IH[OF this] s'(2) t(2) show False by blast
  qed
qed

lemma stall_None:
  assumes "0 < t"
  shows "selectLoop [water] tm (Fin t) (initialState [vitaminC]) = None"
proof (cases "selectLoop [water] tm (Fin t) (initialState [vitaminC])")
  case None
  then show ?thesis .
next
  case (Some r)
  have "stalled (initialState [vitaminC])" by (simp add: stalled_def initialState_def)
  with stalled_never_returns[OF Some] assms show ?thesis by blast
qed


section \<open>Empty meal list\<close>

lemma greedy_empty_meals: "distributeToMeals srt sels [] tc = Inl TypeError"
  by (simp add: distributeToMeals_def)

lemma sample_target: "targetCalories_greedy now (sampleInput ings ns ms) = Fin 2707.85"
  by (simp add: targetCalories_greedy_def sampleInput_def calculateTDEE_def bmr_def
        leanBodyMass_def jsub_def)

text \<open>
  C10 (amended). With an empty meal list the greedy \<^verbatim>\<open>distributeToMeals\<close> throws (the
  reduction over the empty list has no initial value), whatever the selection. The greedy
  \<^verbatim>\<open>getDiet\<close> then never returns a diet: it throws that error whenever its selection loop
  returns, and does not return otherwise.
\<close>

theorem empty_meal_list_throws:
  assumes "input_meals input = []"
  shows "distributeToMeals srt sels (input_meals input) tc = Inl TypeError \<and>
         (getDiet srt now input = None \<or> getDiet srt now input = Some (Inl TypeError)) \<and>
         (selectOptimalIngredients (input_ingredients input) (input_nutrients input)
            (calculateTargetMacros (targetCalories_greedy now input) (input_targetMacros input))
            (targetCalories_greedy now input) \<noteq> None \<longrightarrow>
          getDiet srt now input = Some (Inl TypeError))"
  using assms
  by (auto simp: getDiet_def Let_def greedy_empty_meals split: option.splits)

lemma vitaminD3_sample_loop:
  "selectLoop [vitaminD3]
     (calculateTargetMacros (Fin 2707.85)
        \<lparr> proteinPercentage = Fin 30, carbsPercentage = Fin 45, fatPercentage = Fin 25 \<rparr>)
     (Fin 2707.85) (initialState [vitaminD]) =
   Some \<lparr> st_selected = [\<lparr> ingredient = vitaminD3, amount = Fin 20 \<rparr>],
          st_tracking = [\<lparr> nutrient = vitaminD, consumed = Fin 5, percentage = Fin 100 \<rparr>],
          st_macros = \<lparr> protein = Fin 0, carbs = Fin (1 / 50), fat = Fin 0 \<rparr>,
          st_calories = Fin (2 / 25) \<rparr>"
  by (simp add: selectLoop.simps select_defs nutrientScore_def limitByNutrient_def
        findTracking_def calculateTargetMacros_def vitaminD3_def vitaminD_def)

theorem empty_meal_list_throws_witness:
  "input_meals (sampleInput [vitaminD3] [vitaminD] []) = [] \<and>
   getDiet insertionSort (Fin 0) (sampleInput [vitaminD3] [vitaminD] []) = Some (Inl TypeError)"
proof -
  let ?input = "sampleInput [vitaminD3] [vitaminD] []"
  have h: "input_meals ?input = []" by (simp add: sampleInput_def)
  have i: "input_ingredients ?input = [vitaminD3]" "input_nutrients ?input = [vitaminD]"
      "input_targetMacros ?input =
         \<lparr> proteinPercentage = Fin 30, carbsPercentage = Fin 45, fatPercentage = Fin 25 \<rparr>"
    by (simp_all add: sampleInput_def)
  have "selectOptimalIngredients (input_ingredients ?input) (input_nutrients ?input)
            (calculateTargetMacros (targetCalories_greedy (Fin 0) ?input) (input_targetMacros ?input))
            (targetCalories_greedy (Fin 0) ?input) \<noteq> None"
    unfolding sample_target i selectOptimalIngredients_def vitaminD3_sample_loop by simp
  with empty_meal_list_throws[OF h, of insertionSort "[]" "Fin 0" "Fin 0"] h
  show ?thesis by blast
qed

text \<open>
  The claim C10 as stated fails for \<^verbatim>\<open>getDiet\<close>: with the catalog of water alone and
  an empty meal list, no error is thrown, as the selection loop never returns.
\<close>

theorem empty_meal_list_getDiet_hangs:
  "input_meals (sampleInput [water] [vitaminC] []) = [] \<and>
   getDiet insertionSort (Fin 0) (sampleInput [water] [vitaminC] []) = None"
proof -
  let ?input = "sampleInput [water] [vitaminC] []"
  have l: "selectLoop [water] tm (Fin 2707.85) (initialState [vitaminC]) = None" for tm
    by (rule stall_None) simp
  have i: "input_ingredients ?input = [water]" "input_nutrients ?input = [vitaminC]"
      "input_meals ?input = []"
    by (simp_all add: sampleInput_def)
  have "getDiet insertionSort (Fin 0) ?input = None"
    unfolding getDiet_def Let_def sample_target i selectOptimalIngredients_def l by simp
  with i(3) show ?thesis by blast
qed

section \<open>Selection: the total of a supplement\<close>

lemma whey_loop:
  "selectLoop [wheyProtein] targets2000 (Fin 2000) (initialState [vitaminC]) =
   Some \<lparr> st_selected = [\<lparr> ingredient = wheyProtein, amount = Fin 468 \<rparr>],
          st_tracking = initializeNutrientTracking [vitaminC],
          st_macros = \<lparr> protein = Fin (1872 / 5), carbs = Fin (936 / 25), fat = Fin (702 / 25) \<rparr>,
          st_calories = Fin (47502 / 25) \<rparr>"
  by (simp add: selectLoop.simps select_defs wheyProtein_def vitaminC_def targets2000_def)

lemma whey_balance:
  "fst (optimizeMacroBalance [\<lparr> ingredient = wheyProtein, amount = Fin 468 \<rparr>]
          \<lparr> protein = Fin (1872 / 5), carbs = Fin (936 / 25), fat = Fin (702 / 25) \<rparr>
          targets2000 (Fin 2000)) =
   [\<lparr> ingredient = wheyProtein, amount = Fin 468 \<rparr>]"
  by (simp add: optimizeMacroBalance_def refineLoop.simps refinePass_def refineSelection_def
        recalculateMacros_def addMacros_def calculateTotalCalories_def
        jgt_def jsub_def Let_def wheyProtein_def targets2000_def)

text \<open>
  C3 at a concrete input. With a catalog of one whey protein supplement, a nutrient no
  ingredient provides and a target of 2000 kcal (macros 150/225/55.6 g), every iteration
  picks at most 10 grams of the supplement and merges it by name: the selection returned
  holds 468 grams of it.
\<close>

theorem greedy_supplement_total_468g:
  "isSupplement (ingredient_name wheyProtein) \<and>
   selectOptimalIngredients [wheyProtein] [vitaminC] targets2000 (Fin 2000) =
     Some [\<lparr> ingredient = wheyProtein, amount = Fin 468 \<rparr>] \<and>
   \<not> jle (Fin 468) (Fin 10)"
proof -
  have s: "isSupplement (ingredient_name wheyProtein)"
    by (simp add: isSupplement_def wheyProtein_def)
  have "selectOptimalIngredients [wheyProtein] [vitaminC] targets2000 (Fin 2000) =
          Some [\<lparr> ingredient = wheyProtein, amount = Fin 468 \<rparr>]"
    by (simp add: selectOptimalIngredients_def whey_loop whey_balance)
  with s show ?thesis by simp
qed

end
